(* ===== verification/AT_Prelude.thy ===== *)
theory AT_Prelude
  imports Main "HOL-Library.Extended_Nat"
begin

text \<open>
  Shared vocabulary of the attack-tree development: the named collections the component
  theories fill, Python's decimal formatting of integers (the f-string \<open>f"N{k}"\<close> of the
  Mermaid exporter) with its parser and round trip, Python's \<open>str.join\<close>,
  \<open>str.split('\n')\<close> and \<open>str.startswith\<close> with the laws that split a joined document
  back into its lines, and generic
  list lemmas (sums over concatenations and filters) that the path-search and
  leaf-enumeration proofs share.
\<close>

named_theorems tree_defs "definitions of the concrete attack trees, unfolded for evaluation"
named_theorems score_simps "rewrite rules for path scores"

section \<open>Python's \<open>str(n)\<close> for natural numbers\<close>

definition digit_char :: "nat \<Rightarrow> char" where
  "digit_char d = char_of (48 + d)"

fun nat_str :: "nat \<Rightarrow> string" where
  "nat_str n = (if n < 10 then [digit_char n] else nat_str (n div 10) @ [digit_char (n mod 10)])"

declare nat_str.simps [simp del]

text \<open>The parser the round trip is stated against (Python's \<open>int(s)\<close> on digit strings).\<close>

definition str_nat :: "string \<Rightarrow> nat" where
  "str_nat s = foldl (\<lambda>acc c. 10 * acc + (of_char c - 48)) 0 s"

lemma of_char_digit_char [simp]: "d < 10 \<Longrightarrow> of_char (digit_char d) = 48 + d"
  by (simp add: digit_char_def)

lemma digit_char_simps [simp]:
  "digit_char 0 = CHR ''0''" "digit_char 1 = CHR ''1''" "digit_char 2 = CHR ''2''"
  "digit_char 3 = CHR ''3''" "digit_char 4 = CHR ''4''" "digit_char 5 = CHR ''5''"
  "digit_char 6 = CHR ''6''" "digit_char 7 = CHR ''7''" "digit_char 8 = CHR ''8''"
  "digit_char 9 = CHR ''9''" "digit_char (Suc 0) = CHR ''1''"
  unfolding digit_char_def by code_simp+

lemma str_nat_snoc: "str_nat (s @ [c]) = 10 * str_nat s + (of_char c - 48)"
  by (simp add: str_nat_def)

lemma str_nat_nat_str [simp]: "str_nat (nat_str n) = n"
proof (induction n rule: nat_str.induct)
  case (1 n)
  show ?case
  proof (cases "n < 10")
    case True
    then show ?thesis by (simp add: nat_str.simps [of n] str_nat_def)
  next
    case False
    then have "str_nat (nat_str (n div 10)) = n div 10" using "1.IH" by simp
    with False show ?thesis by (simp add: nat_str.simps [of n] str_nat_snoc)
  qed
qed

lemma nat_str_inj [simp]: "nat_str m = nat_str n \<longleftrightarrow> m = n"
  by (metis str_nat_nat_str)

lemma nat_str_nonempty [simp]: "nat_str n \<noteq> []"
  by (simp add: nat_str.simps [of n])

section \<open>Python strings: \<open>sep.join\<close>, \<open>split\<close>, \<open>startswith\<close>\<close>

fun py_join :: "string \<Rightarrow> string list \<Rightarrow> string" where
  "py_join sep [] = []"
| "py_join sep [x] = x"
| "py_join sep (x # y # ys) = x @ sep @ py_join sep (y # ys)"

text \<open>Python's \<open>s.split('\n')\<close> and \<open>s.startswith(p)\<close>: the lines of a document and
  their prefixes, the way a reader of the generated text sees them.\<close>

fun py_split_nl :: "string \<Rightarrow> string list" where
  "py_split_nl [] = [[]]"
| "py_split_nl (c # s) =
     (let ls = py_split_nl s in if c = CHR 0x0A then [] # ls else (c # hd ls) # tl ls)"

definition starts_with :: "string \<Rightarrow> string \<Rightarrow> bool" where
  "starts_with p s \<longleftrightarrow> take (length p) s = p"

lemma py_join_Cons: "ys \<noteq> [] \<Longrightarrow> py_join sep (x # ys) = x @ sep @ py_join sep ys"
  by (cases ys) simp_all

lemma py_join_append:
  "xs \<noteq> [] \<Longrightarrow> ys \<noteq> [] \<Longrightarrow> py_join sep (xs @ ys) = py_join sep xs @ sep @ py_join sep ys"
  by (induction sep xs rule: py_join.induct) (auto simp: neq_Nil_conv)

lemma py_split_nl_nonempty [simp]: "py_split_nl s \<noteq> []"
  by (induction s) (simp_all add: Let_def)

lemma py_split_nl_append_nl: "py_split_nl (a @ CHR 0x0A # b) = py_split_nl a @ py_split_nl b"
proof (induction a)
  case Nil
  then show ?case by simp
next
  case (Cons c a)
  then show ?case by (cases "py_split_nl a") (simp_all add: Let_def)
qed

lemma py_split_nl_no_nl: "CHR 0x0A \<notin> set s \<Longrightarrow> py_split_nl s = [s]"
  by (induction s) (auto simp: Let_def)

text \<open>Splitting a joined document gives back the lines of its parts.\<close>

lemma py_split_nl_join: "ls \<noteq> [] \<Longrightarrow> py_split_nl (py_join ''\<newline>'' ls) = concat (map py_split_nl ls)"
  by (induction "''\<newline>''" ls rule: py_join.induct) (simp_all add: py_split_nl_append_nl)

lemma concat_map_split_no_nl: "list_all (\<lambda>l. CHR 0x0A \<notin> set l) ls \<Longrightarrow> concat (map py_split_nl ls) = ls"
  by (induction ls) (simp_all add: py_split_nl_no_nl)

lemma starts_with_take: "starts_with p l \<Longrightarrow> n \<le> length p \<Longrightarrow> take n l = take n p"
  unfolding starts_with_def by (metis min.absorb1 take_take)

lemma nat_str_chars: "c \<in> set (nat_str n) \<Longrightarrow> (48::nat) \<le> of_char c"
proof (induction n rule: nat_str.induct)
  case (1 n)
  then show ?case by (cases "n < 10") (auto simp: nat_str.simps [of n])
qed

lemma nl_notin_nat_str [simp]: "CHR 0x0A \<notin> set (nat_str n)"
  using nat_str_chars [of "CHR 0x0A" n] by fastforce

section \<open>Sums over concatenations and filters\<close>

lemma sum_list_map_concat [score_simps]:
  "sum_list (map f (concat xss)) = sum_list (map (\<lambda>xs. sum_list (map f xs)) xss)"
  by (induction xss) auto

lemma sum_list_map_filter [score_simps]:
  "sum_list (map f (filter P xs)) = sum_list (map (\<lambda>x. if P x then f x else 0) xs)"
  by (induction xs) auto


lemma first_argmin_exists:
  fixes f :: "'a \<Rightarrow> 'b::linorder"
  assumes "xs \<noteq> []"
  shows "\<exists>k<length xs. (\<forall>j<k. f (xs ! k) < f (xs ! j)) \<and> (\<forall>j<length xs. f (xs ! k) \<le> f (xs ! j))"
  using assms
proof (induction xs)
  case Nil
  then show ?case by simp
next
  case (Cons x xs)
  show ?case
  proof (cases "\<forall>j<length xs. f x \<le> f (xs ! j)")
    case True
    then show ?thesis by (auto simp: less_Suc_eq_0_disj)
  next
    case False
    then have "xs \<noteq> []" by auto
    then obtain k where k: "k < length xs" "\<forall>j<k. f (xs ! k) < f (xs ! j)"
      "\<forall>j<length xs. f (xs ! k) \<le> f (xs ! j)"
      using Cons.IH by blast
    with False have "f (xs ! k) < f x" by (meson le_less_trans not_le)
    with k show ?thesis
      by (intro exI [of _ "Suc k"]) (auto simp: less_Suc_eq_0_disj)
  qed
qed

lemma sum_list_list_all2_le:
  fixes f g :: "_ \<Rightarrow> 'b::ordered_comm_monoid_add"
  shows "list_all2 (\<lambda>x y. f x \<le> g y) xs ys \<Longrightarrow> sum_list (map f xs) \<le> sum_list (map g ys)"
  by (induction rule: list_all2_induct) (auto intro: add_mono)


lemma length_filter_concat_map:
  "length (filter P (concat (map f xs))) = sum_list (map (\<lambda>x. length (filter P (f x))) xs)"
  by (induction xs) simp_all

section \<open>Options\<close>

lemma those_map_Some:
  "(\<And>x. x \<in> set xs \<Longrightarrow> f x = Some (g x)) \<Longrightarrow> those (map f xs) = Some (map g xs)"
  by (induction xs) auto

lemma map_le_dom_eq: "f \<subseteq>\<^sub>m g \<Longrightarrow> dom g \<subseteq> dom f \<Longrightarrow> g = f"
  by (metis map_le_antisym map_le_def subsetD)

end
