(* ===== verification/Attack_Node.thy ===== *)
theory Attack_Node
  imports AT_Prelude
begin

text \<open>
  The data model of \<open>src/docs/security/attack-trees-analysis.py\<close>: the enums
  \<open>NodeType\<close>, \<open>Difficulty\<close>, \<open>Cost\<close>, \<open>DetectionRisk\<close> (constructors prefixed
  \<open>D_\<close>, \<open>C_\<close>, \<open>R_\<close> because the three enums share member names; \<open>.value\<close> and
  \<open>.name\<close> are the functions \<open>*_value\<close> and \<open>*_name\<close>), the dataclass
  \<open>AttackAttributes\<close> as a record with its defaults, the dataclass \<open>AttackNode\<close> as a
  datatype with one selector per field (a record cannot be recursive), \<open>add_child\<close> as
  a function returning the extended node, and the dataclass \<open>AttackTree\<close> as a record.
  Python floats (\<open>time_hours\<close>) are reals: they are only stored and serialised.
  Also here: the pre-order traversal every other component is specified against, and the
  two shape invariants (construction: leaves have no children; scoring: a node is a leaf
  exactly when it has no children) with their preservation by \<open>add_child\<close>.
\<close>

section \<open>Enums\<close>

datatype node_type = OR | AND | LEAF

primrec node_type_value :: "node_type \<Rightarrow> string" where
  "node_type_value OR = ''or''"
| "node_type_value AND = ''and''"
| "node_type_value LEAF = ''leaf''"

datatype difficulty = D_TRIVIAL | D_LOW | D_MEDIUM | D_HIGH | D_EXPERT

primrec difficulty_value :: "difficulty \<Rightarrow> nat" where
  "difficulty_value D_TRIVIAL = 1"
| "difficulty_value D_LOW = 2"
| "difficulty_value D_MEDIUM = 3"
| "difficulty_value D_HIGH = 4"
| "difficulty_value D_EXPERT = 5"

primrec difficulty_name :: "difficulty \<Rightarrow> string" where
  "difficulty_name D_TRIVIAL = ''TRIVIAL''"
| "difficulty_name D_LOW = ''LOW''"
| "difficulty_name D_MEDIUM = ''MEDIUM''"
| "difficulty_name D_HIGH = ''HIGH''"
| "difficulty_name D_EXPERT = ''EXPERT''"

datatype cost = C_FREE | C_LOW | C_MEDIUM | C_HIGH | C_VERY_HIGH

primrec cost_value :: "cost \<Rightarrow> nat" where
  "cost_value C_FREE = 0"
| "cost_value C_LOW = 1"
| "cost_value C_MEDIUM = 2"
| "cost_value C_HIGH = 3"
| "cost_value C_VERY_HIGH = 4"

primrec cost_name :: "cost \<Rightarrow> string" where
  "cost_name C_FREE = ''FREE''"
| "cost_name C_LOW = ''LOW''"
| "cost_name C_MEDIUM = ''MEDIUM''"
| "cost_name C_HIGH = ''HIGH''"
| "cost_name C_VERY_HIGH = ''VERY_HIGH''"

datatype detection_risk = R_NONE | R_LOW | R_MEDIUM | R_HIGH | R_CERTAIN

primrec detection_risk_value :: "detection_risk \<Rightarrow> nat" where
  "detection_risk_value R_NONE = 0"
| "detection_risk_value R_LOW = 1"
| "detection_risk_value R_MEDIUM = 2"
| "detection_risk_value R_HIGH = 3"
| "detection_risk_value R_CERTAIN = 4"

primrec detection_risk_name :: "detection_risk \<Rightarrow> string" where
  "detection_risk_name R_NONE = ''NONE''"
| "detection_risk_name R_LOW = ''LOW''"
| "detection_risk_name R_MEDIUM = ''MEDIUM''"
| "detection_risk_name R_HIGH = ''HIGH''"
| "detection_risk_name R_CERTAIN = ''CERTAIN''"

section \<open>Attributes, nodes, trees\<close>

record attack_attributes =
  difficulty :: difficulty
  cost :: cost
  detection_risk :: detection_risk
  time_hours :: real
  requires_insider :: bool
  requires_physical :: bool

text \<open>\<open>AttackAttributes()\<close>: every field at its dataclass default.\<close>

definition default_attributes :: attack_attributes where
  "default_attributes =
     \<lparr>difficulty = D_MEDIUM, cost = C_MEDIUM, detection_risk = R_MEDIUM, time_hours = 8,
      requires_insider = False, requires_physical = False\<rparr>"

text \<open>\<open>AttackAttributes(difficulty=d, cost=c, detection_risk=r, time_hours=t)\<close>, the only
  form the tree builders use; the two booleans keep their defaults.\<close>

definition AttackAttributes :: "difficulty \<Rightarrow> cost \<Rightarrow> detection_risk \<Rightarrow> real \<Rightarrow> attack_attributes" where
  "AttackAttributes d c r t = default_attributes\<lparr>difficulty := d, cost := c, detection_risk := r, time_hours := t\<rparr>"

datatype attack_node = AttackNode
  (node_id: string)
  (name: string)
  (description: string)
  (node_type: node_type)
  (attributes: attack_attributes)
  (children: "attack_node list")
  (mitigations: "string list")
  (cve_refs: "string list")
  (file_refs: "string list")

text \<open>\<open>AttackNode(id=i, name=n, description=d, node_type=t)\<close>: the remaining fields at their
  defaults (fresh empty lists, default attributes).\<close>

definition mk_node :: "string \<Rightarrow> string \<Rightarrow> string \<Rightarrow> node_type \<Rightarrow> attack_node" where
  "mk_node i n d t = AttackNode i n d t default_attributes [] [] [] []"

text \<open>\<open>AttackNode.add_child\<close>: \<open>self.children.append(child)\<close>. The builders attach each
  child only after they finished building it, so value semantics is faithful.\<close>

primrec add_child :: "attack_node \<Rightarrow> attack_node \<Rightarrow> attack_node" where
  "add_child (AttackNode i n d t a cs ms cv fr) c = AttackNode i n d t a (cs @ [c]) ms cv fr"

record attack_tree =
  tree_name :: string
  tree_description :: string
  root :: attack_node
  version :: string
  severity :: string

text \<open>\<open>AttackTree(name=n, description=d, root=r, severity=s)\<close>, \<open>version\<close> at its default.\<close>

definition AttackTree :: "string \<Rightarrow> string \<Rightarrow> attack_node \<Rightarrow> string \<Rightarrow> attack_tree" where
  "AttackTree n d r s = \<lparr>tree_name = n, tree_description = d, root = r, version = ''1.0'', severity = s\<rparr>"

section \<open>Traversal and shape\<close>

definition is_leaf :: "attack_node \<Rightarrow> bool" where
  "is_leaf n \<longleftrightarrow> node_type n = LEAF"

text \<open>Depth-first pre-order: the node, then its children's traversals in stored order.\<close>

primrec preorder :: "attack_node \<Rightarrow> attack_node list" where
  "preorder (AttackNode i n d t a cs ms cv fr) =
     AttackNode i n d t a cs ms cv fr # concat (map preorder cs)"

definition tree_size :: "attack_node \<Rightarrow> nat" where
  "tree_size n = length (preorder n)"

definition tree_ids :: "attack_node \<Rightarrow> string list" where
  "tree_ids n = map node_id (preorder n)"

text \<open>The construction invariant the source leaves to the caller: leaves have no children.\<close>

primrec leaves_childless :: "attack_node \<Rightarrow> bool" where
  "leaves_childless (AttackNode i n d t a cs ms cv fr) \<longleftrightarrow>
     (t = LEAF \<longrightarrow> cs = []) \<and> list_all leaves_childless cs"

text \<open>The shape intended for scoring: a node is a leaf exactly when it has no children.\<close>

primrec scoring_shape :: "attack_node \<Rightarrow> bool" where
  "scoring_shape (AttackNode i n d t a cs ms cv fr) \<longleftrightarrow>
     (t = LEAF \<longleftrightarrow> cs = []) \<and> list_all scoring_shape cs"

definition well_formed :: "attack_node \<Rightarrow> bool" where
  "well_formed n \<longleftrightarrow> scoring_shape n \<and> distinct (tree_ids n)"

lemma preorder_eq: "preorder n = n # concat (map preorder (children n))"
  by (cases n) simp

lemma preorder_nonempty [simp]: "preorder n \<noteq> []"
  by (cases n) simp

lemma tree_size_eq: "tree_size n = Suc (sum_list (map tree_size (children n)))"
  by (simp add: tree_size_def [abs_def] preorder_eq [of n] length_concat comp_def)

lemma add_child_sel [simp]:
  "node_id (add_child n c) = node_id n" "name (add_child n c) = name n"
  "node_type (add_child n c) = node_type n" "attributes (add_child n c) = attributes n"
  "children (add_child n c) = children n @ [c]" "mitigations (add_child n c) = mitigations n"
  by (cases n; simp)+

lemma tree_ids_add_child: "tree_ids (add_child n c) = tree_ids n @ tree_ids c"
  by (cases n) (simp add: tree_ids_def)

text \<open>C18. What \<open>add_child\<close> does to the invariants, with no guard of its own: attaching a
  well-shaped child with fresh ids to a well-shaped node keeps the ids unique, and keeps both
  the construction invariant (leaves have no children) and the scoring shape exactly when
  the parent is not a LEAF; attaching to a LEAF breaks both, as the specification leaves to
  the caller.\<close>

theorem add_child_invariants:
  assumes "leaves_childless p" "leaves_childless c" "list_all scoring_shape (children p)" "scoring_shape c"
    "distinct (tree_ids p @ tree_ids c)"
  shows "(leaves_childless (add_child p c) \<longleftrightarrow> node_type p \<noteq> LEAF) \<and>
         (scoring_shape (add_child p c) \<longleftrightarrow> node_type p \<noteq> LEAF) \<and>
         distinct (tree_ids (add_child p c))"
proof -
  have "distinct (tree_ids (add_child p c))" using assms(5) by (simp add: tree_ids_add_child)
  moreover have "leaves_childless (add_child p c) \<longleftrightarrow> node_type p \<noteq> LEAF"
    "scoring_shape (add_child p c) \<longleftrightarrow> node_type p \<noteq> LEAF"
    using assms(1-4) by (cases p; auto)+
  ultimately show ?thesis by blast
qed

theorem add_child_invariants_witness:
  "leaves_childless (mk_node ''G'' ''goal'' '''' OR) \<and>
   leaves_childless (AttackNode ''A'' ''A'' '''' LEAF default_attributes [] [] [] []) \<and>
   list_all scoring_shape (children (mk_node ''G'' ''goal'' '''' OR)) \<and>
   scoring_shape (AttackNode ''A'' ''A'' '''' LEAF default_attributes [] [] [] []) \<and>
   distinct (tree_ids (mk_node ''G'' ''goal'' '''' OR) @ tree_ids (AttackNode ''A'' ''A'' '''' LEAF default_attributes [] [] [] [])) \<and>
   scoring_shape (add_child (mk_node ''G'' ''goal'' '''' OR) (AttackNode ''A'' ''A'' '''' LEAF default_attributes [] [] [] []))"
proof -
  have h: "leaves_childless (mk_node ''G'' ''goal'' '''' OR)"
    "leaves_childless (AttackNode ''A'' ''A'' '''' LEAF default_attributes [] [] [] [])"
    "list_all scoring_shape (children (mk_node ''G'' ''goal'' '''' OR))"
    "scoring_shape (AttackNode ''A'' ''A'' '''' LEAF default_attributes [] [] [] [])"
    "distinct (tree_ids (mk_node ''G'' ''goal'' '''' OR) @ tree_ids (AttackNode ''A'' ''A'' '''' LEAF default_attributes [] [] [] []))"
    by (simp_all add: mk_node_def tree_ids_def)
  have "node_type (mk_node ''G'' ''goal'' '''' OR) \<noteq> LEAF" by (simp add: mk_node_def)
  then show ?thesis using h add_child_invariants [OF h] by simp
qed
end
