(* ===== verification/Path_Search.thy ===== *)
theory Path_Search
  imports Attack_Node
begin

text \<open>
  \<open>AttackTree._find_path\<close>, \<open>AttackTree._path_score\<close> and the three public entry points
  \<open>find_easiest_path\<close>, \<open>find_cheapest_path\<close>, \<open>find_stealthiest_path\<close>. The search
  is one \<^theory_text>\<open>fun\<close> with two loop helpers, one per \<open>for\<close> loop of the source: the
  OR loop keeps \<open>best_score\<close> (an \<open>enat\<close>, starting at \<open>\<infinity>\<close> for \<open>float('inf')\<close>) and
  \<open>best_path\<close> (an option, \<open>None\<close> for Python's \<open>None\<close>), the AND loop extends the path.
  The metric is the source's string, with \<open>_path_score\<close>'s fall-through to 0.

  The specification is an inductive relation \<open>attack_path n p\<close> (the paths an attacker
  can take: one child of an OR node, all children of an AND node, in order) and the least
  score \<open>min_score\<close>. The search refines \<open>min_score\<close>, returns an attack path, and no
  attack path scores less; the OR loop returns the first child of least score.
\<close>

section \<open>Scores\<close>

definition path_score :: "attack_node list \<Rightarrow> string \<Rightarrow> nat" where
  "path_score path metric =
     (if metric = ''difficulty''
      then sum_list (map (\<lambda>n. difficulty_value (difficulty (attributes n))) (filter is_leaf path))
      else if metric = ''cost''
      then sum_list (map (\<lambda>n. cost_value (cost (attributes n))) (filter is_leaf path))
      else if metric = ''detection''
      then sum_list (map (\<lambda>n. detection_risk_value (detection_risk (attributes n))) (filter is_leaf path))
      else 0)"

text \<open>The metric dispatch of \<open>_path_score\<close>, for one node.\<close>

definition metric_value :: "string \<Rightarrow> attack_node \<Rightarrow> nat" where
  "metric_value metric n =
     (if metric = ''difficulty'' then difficulty_value (difficulty (attributes n))
      else if metric = ''cost'' then cost_value (cost (attributes n))
      else if metric = ''detection'' then detection_risk_value (detection_risk (attributes n))
      else 0)"

definition leaf_weight :: "string \<Rightarrow> attack_node \<Rightarrow> nat" where
  "leaf_weight metric n = (if is_leaf n then metric_value metric n else 0)"

section \<open>The recursive search\<close>

fun find_path :: "attack_node \<Rightarrow> string \<Rightarrow> attack_node list"
and or_loop :: "attack_node list \<Rightarrow> string \<Rightarrow> enat \<Rightarrow> attack_node list option \<Rightarrow> attack_node list option"
and and_loop :: "attack_node list \<Rightarrow> string \<Rightarrow> attack_node list \<Rightarrow> attack_node list" where
  "find_path (AttackNode i n d t a cs ms cv fr) minimize =
     (let node = AttackNode i n d t a cs ms cv fr in
      if t = LEAF then [node]
      else if cs = [] then [node]
      else if t = OR then node # (case or_loop cs minimize \<infinity> None of None \<Rightarrow> [] | Some p \<Rightarrow> p)
      else and_loop cs minimize [node])"
| "or_loop [] minimize best_score best_path = best_path"
| "or_loop (child # cs) minimize best_score best_path =
     (let child_path = find_path child minimize;
          score = path_score child_path minimize in
      if enat score < best_score then or_loop cs minimize (enat score) (Some child_path)
      else or_loop cs minimize best_score best_path)"
| "and_loop [] minimize path = path"
| "and_loop (child # cs) minimize path = and_loop cs minimize (path @ find_path child minimize)"

text \<open>The score the OR loop computes for one child.\<close>

definition child_score :: "string \<Rightarrow> attack_node \<Rightarrow> nat" where
  "child_score m c = path_score (find_path c m) m"

definition find_easiest_path :: "attack_tree \<Rightarrow> attack_node list" where
  "find_easiest_path t = find_path (root t) ''difficulty''"

definition find_cheapest_path :: "attack_tree \<Rightarrow> attack_node list" where
  "find_cheapest_path t = find_path (root t) ''cost''"

definition find_stealthiest_path :: "attack_tree \<Rightarrow> attack_node list" where
  "find_stealthiest_path t = find_path (root t) ''detection''"

section \<open>Specification: attack paths and their least score\<close>

inductive attack_path :: "attack_node \<Rightarrow> attack_node list \<Rightarrow> bool" where
  leaf: "node_type n = LEAF \<Longrightarrow> attack_path n [n]"
| dead_end: "node_type n \<noteq> LEAF \<Longrightarrow> children n = [] \<Longrightarrow> attack_path n [n]"
| or_step: "node_type n = OR \<Longrightarrow> c \<in> set (children n) \<Longrightarrow> attack_path c p \<Longrightarrow> attack_path n (n # p)"
| and_step: "node_type n = AND \<Longrightarrow> children n \<noteq> [] \<Longrightarrow> list_all2 attack_path (children n) ps \<Longrightarrow>
     attack_path n (n # concat ps)"

primrec min_score :: "string \<Rightarrow> attack_node \<Rightarrow> nat" where
  "min_score m (AttackNode i n d t a cs ms cv fr) =
     (if t = LEAF then metric_value m (AttackNode i n d t a cs ms cv fr)
      else if cs = [] then 0
      else if t = OR then Min (set (map (min_score m) cs))
      else sum_list (map (min_score m) cs))"

section \<open>The two worked examples of the specification\<close>

definition example_leaf :: "string \<Rightarrow> attack_attributes \<Rightarrow> attack_node" where
  "example_leaf i a = AttackNode i i '''' LEAF a [] [] [] []"

definition example_or_A :: attack_node where
  "example_or_A = example_leaf ''A'' (AttackAttributes D_TRIVIAL C_MEDIUM R_MEDIUM 8)"

definition example_or_B :: attack_node where
  "example_or_B = example_leaf ''B'' (AttackAttributes D_HIGH C_MEDIUM R_MEDIUM 8)"

definition example_or_root :: attack_node where
  "example_or_root = add_child (add_child (mk_node ''root'' ''root'' '''' OR) example_or_A) example_or_B"

definition example_and_A :: attack_node where
  "example_and_A = example_leaf ''A'' (AttackAttributes D_MEDIUM C_LOW R_MEDIUM 8)"

definition example_and_B :: attack_node where
  "example_and_B = example_leaf ''B'' (AttackAttributes D_MEDIUM C_MEDIUM R_MEDIUM 8)"

definition example_and_root :: attack_node where
  "example_and_root = add_child (add_child (mk_node ''root'' ''root'' '''' AND) example_and_A) example_and_B"

definition example_or_tree :: attack_tree where
  "example_or_tree = AttackTree ''OR example'' '''' example_or_root ''Medium''"

lemmas example_defs [tree_defs] = example_leaf_def example_or_A_def example_or_B_def
  example_or_root_def example_and_A_def example_and_B_def example_and_root_def
  example_or_tree_def AttackTree_def mk_node_def AttackAttributes_def
  default_attributes_def

section \<open>Scores of paths\<close>

lemma path_score_leaf_weight: "path_score p m = sum_list (map (leaf_weight m) p)"
  by (induction p) (auto simp: path_score_def leaf_weight_def metric_value_def)

lemma path_score_Nil [simp]: "path_score [] m = 0"
  and path_score_Cons [simp]: "path_score (n # p) m = leaf_weight m n + path_score p m"
  and path_score_append [simp]: "path_score (p @ q) m = path_score p m + path_score q m"
  and path_score_concat: "path_score (concat ps) m = sum_list (map (\<lambda>p. path_score p m) ps)"
  by (simp_all add: path_score_leaf_weight sum_list_map_concat)

lemma leaf_weight_nonleaf [simp]: "node_type n \<noteq> LEAF \<Longrightarrow> leaf_weight m n = 0"
  by (simp add: leaf_weight_def is_leaf_def)

lemma leaf_weight_leaf [simp]: "node_type n = LEAF \<Longrightarrow> leaf_weight m n = metric_value m n"
  by (simp add: leaf_weight_def is_leaf_def)

section \<open>The loops\<close>

lemma find_path_eq:
  "find_path n m =
     (if node_type n = LEAF then [n]
      else if children n = [] then [n]
      else if node_type n = OR then n # (case or_loop (children n) m \<infinity> None of None \<Rightarrow> [] | Some p \<Rightarrow> p)
      else and_loop (children n) m [n])"
  by (cases n) (simp add: Let_def)

lemma or_loop_keep: "\<forall>c\<in>set cs. b \<le> enat (child_score m c) \<Longrightarrow> or_loop cs m b bp = bp"
  by (induction cs) (auto simp: child_score_def Let_def)

text \<open>The OR loop ends on the first child of least score, provided that score beats the
  running best (strict \<open><\<close>: a later child of equal score never replaces it).\<close>

lemma or_loop_first_min:
  "k < length cs \<Longrightarrow> \<forall>j<k. child_score m (cs ! k) < child_score m (cs ! j) \<Longrightarrow>
   \<forall>j<length cs. child_score m (cs ! k) \<le> child_score m (cs ! j) \<Longrightarrow>
   enat (child_score m (cs ! k)) < b \<Longrightarrow> or_loop cs m b bp = Some (find_path (cs ! k) m)"
proof (induction cs arbitrary: k b bp)
  case Nil
  then show ?case by simp
next
  case (Cons c cs)
  show ?case
  proof (cases k)
    case 0
    with Cons.prems(3) have "\<forall>c'\<in>set cs. enat (child_score m c) \<le> enat (child_score m c')"
      by (fastforce simp: in_set_conv_nth)
    with 0 Cons.prems(4) show ?thesis
      by (simp add: Let_def or_loop_keep child_score_def [symmetric])
  next
    case (Suc k')
    have lt: "child_score m (cs ! k') < child_score m c"
      using Cons.prems(2) Suc by fastforce
    have hyps: "k' < length cs" "\<forall>j<k'. child_score m (cs ! k') < child_score m (cs ! j)"
      "\<forall>j<length cs. child_score m (cs ! k') \<le> child_score m (cs ! j)"
      using Cons.prems(1-3) Suc by fastforce+
    show ?thesis
    proof (cases "enat (child_score m c) < b")
      case True
      with lt hyps Cons.IH [of k' "enat (child_score m c)"] Suc show ?thesis
        by (simp add: Let_def child_score_def [symmetric])
    next
      case False
      with Cons.prems(4) hyps Cons.IH [of k' b] Suc show ?thesis
        by (simp add: Let_def child_score_def [symmetric])
    qed
  qed
qed

lemma and_loop_eq: "and_loop cs m p = p @ concat (map (\<lambda>c. find_path c m) cs)"
  by (induction cs arbitrary: p) simp_all

lemma find_path_or_first_min:
  assumes "node_type n = OR" and "children n \<noteq> []"
  shows "\<exists>k<length (children n).
           (\<forall>j<k. child_score m (children n ! k) < child_score m (children n ! j)) \<and>
           (\<forall>j<length (children n). child_score m (children n ! k) \<le> child_score m (children n ! j)) \<and>
           find_path n m = n # find_path (children n ! k) m"
proof -
  obtain k where k: "k < length (children n)"
    "\<forall>j<k. child_score m (children n ! k) < child_score m (children n ! j)"
    "\<forall>j<length (children n). child_score m (children n ! k) \<le> child_score m (children n ! j)"
    using first_argmin_exists [OF assms(2)] by blast
  then have "or_loop (children n) m \<infinity> None = Some (find_path (children n ! k) m)"
    by (simp add: or_loop_first_min)
  with k assms show ?thesis by (auto simp: find_path_eq [of n])
qed

lemma find_path_and:
  "node_type n = AND \<Longrightarrow> find_path n m = n # concat (map (\<lambda>c. find_path c m) (children n))"
  by (simp add: find_path_eq [of n] and_loop_eq)

section \<open>Refinement of the least score\<close>

lemma min_score_eq:
  "min_score m n =
     (if node_type n = LEAF then metric_value m n
      else if children n = [] then 0
      else if node_type n = OR then Min (set (map (min_score m) (children n)))
      else sum_list (map (min_score m) (children n)))"
  by (cases n) simp

lemma find_path_min_score: "path_score (find_path n m) m = min_score m n"
proof (induction n)
  case (AttackNode i nm d t a cs ms cv fr)
  define n where "n = AttackNode i nm d t a cs ms cv fr"
  have IH: "\<And>c. c \<in> set cs \<Longrightarrow> child_score m c = min_score m c"
    using AttackNode.IH by (simp add: child_score_def)
  consider "t = LEAF" | "t \<noteq> LEAF" "cs = []" | "t = OR" "cs \<noteq> []" | "t = AND" "cs \<noteq> []"
    by (cases t) auto
  then show ?case
  proof cases
    case 1
    then show ?thesis by simp
  next
    case 2
    then show ?thesis by simp
  next
    case 3
    then obtain k where k: "k < length cs" "\<forall>j<length cs. child_score m (cs ! k) \<le> child_score m (cs ! j)"
      "find_path n m = n # find_path (cs ! k) m"
      using find_path_or_first_min [of n m] by (auto simp: n_def)
    have eqj: "\<And>j. j < length cs \<Longrightarrow> child_score m (cs ! j) = min_score m (cs ! j)"
      using IH nth_mem by blast
    have "Min (set (map (min_score m) cs)) = min_score m (cs ! k)"
    proof (rule Min_eqI)
      fix y
      assume "y \<in> set (map (min_score m) cs)"
      then obtain j where "j < length cs" "y = min_score m (cs ! j)"
        by (auto simp: in_set_conv_nth)
      with k(1,2) eqj show "min_score m (cs ! k) \<le> y" by metis
    qed (use k(1) in simp_all)
    with 3 k IH show ?thesis by (simp add: n_def child_score_def)
  next
    case 4
    with IH show ?thesis
      by (simp add: Let_def and_loop_eq path_score_concat child_score_def comp_def cong: map_cong)
  qed
qed

lemma min_score_le_attack_path: "attack_path n p \<Longrightarrow> min_score m n \<le> path_score p m"
proof (induction rule: attack_path.induct)
  case (leaf n)
  then show ?case by (simp add: min_score_eq [of m n])
next
  case (dead_end n)
  then show ?case by (simp add: min_score_eq [of m n])
next
  case (or_step n c p)
  then have "min_score m n \<le> min_score m c"
    by (auto simp: min_score_eq [of m n] intro: Min_le)
  with or_step show ?case by simp
next
  case (and_step n ps)
  then have "list_all2 (\<lambda>c p. min_score m c \<le> path_score p m) (children n) ps"
    by (auto elim: list_all2_mono)
  then have "sum_list (map (min_score m) (children n)) \<le> sum_list (map (\<lambda>p. path_score p m) ps)"
    by (rule sum_list_list_all2_le)
  with and_step show ?case by (simp add: min_score_eq [of m n] path_score_concat)
qed

lemma example_or_attack_path: "attack_path example_or_root [example_or_root, example_or_B]"
proof (rule attack_path.or_step [of _ example_or_B])
  show "attack_path example_or_B [example_or_B]"
    by (rule attack_path.leaf) (simp add: tree_defs)
qed (simp_all add: tree_defs)

section \<open>Properties of the search\<close>

text \<open>C1. Optimality: the path \<open>_find_path\<close> returns scores no more, for the metric it
  minimises, than any attack path of the node (any choice of one child per OR node and all
  children per AND node).\<close>

theorem find_path_optimal:
  "attack_path n p \<Longrightarrow> path_score (find_path n m) m \<le> path_score p m"
  using min_score_le_attack_path [of n p m] by (simp add: find_path_min_score)

theorem find_path_optimal_witness:
  "attack_path example_or_root [example_or_root, example_or_B] \<and>
   path_score (find_path example_or_root ''difficulty'') ''difficulty'' \<le>
   path_score [example_or_root, example_or_B] ''difficulty''"
  using example_or_attack_path find_path_optimal [OF example_or_attack_path, of "''difficulty''"]
  by simp

text \<open>C2. Soundness: what \<open>_find_path\<close> returns is an attack path of the node, for every
  node and every metric string: it starts at the node, takes one child of each OR node it
  passes and every child, in order, of each AND node.\<close>

theorem find_path_sound: "attack_path n (find_path n m)"
proof (induction n)
  case (AttackNode i nm d t a cs ms cv fr)
  define n where "n = AttackNode i nm d t a cs ms cv fr"
  consider "t = LEAF" | "t \<noteq> LEAF" "cs = []" | "t = OR" "cs \<noteq> []" | "t = AND" "cs \<noteq> []"
    by (cases t) auto
  then show ?case
  proof cases
    case 1
    then show ?thesis using attack_path.leaf [of n] by (simp add: n_def)
  next
    case 2
    then show ?thesis using attack_path.dead_end [of n] by (simp add: n_def)
  next
    case 3
    then obtain k where "k < length cs" "find_path n m = n # find_path (cs ! k) m"
      using find_path_or_first_min [of n m] by (auto simp: n_def)
    with 3 AttackNode.IH show ?thesis
      by (metis attack_path.or_step n_def attack_node.sel(4,6) nth_mem)
  next
    case 4
    have "list_all2 attack_path cs (map (\<lambda>c. find_path c m) cs)"
      using AttackNode.IH by (simp add: list_all2_conv_all_nth)
    with 4 attack_path.and_step [of n "map (\<lambda>c. find_path c m) cs"] show ?thesis
      by (simp add: n_def Let_def and_loop_eq)
  qed
qed

text \<open>C3. Refinement: the easiest, cheapest and stealthiest paths of a tree score exactly
  the least difficulty, cost and detection risk of its root (minimum over the children of
  an OR node, sum over the children of an AND node, the leaf's ordinal at a leaf).\<close>

theorem best_paths_refine_min_score:
  "path_score (find_easiest_path t) ''difficulty'' = min_score ''difficulty'' (root t) \<and>
   path_score (find_cheapest_path t) ''cost'' = min_score ''cost'' (root t) \<and>
   path_score (find_stealthiest_path t) ''detection'' = min_score ''detection'' (root t)"
  by (simp add: find_easiest_path_def find_cheapest_path_def find_stealthiest_path_def
      find_path_min_score)

text \<open>C4. Best-of-children law: at an OR node the returned path scores no more than the
  best path of any single child.\<close>

theorem find_path_or_le_child:
  "node_type n = OR \<Longrightarrow> c \<in> set (children n) \<Longrightarrow>
   path_score (find_path n m) m \<le> path_score (find_path c m) m"
  by (auto simp: find_path_min_score min_score_eq [of m n] intro: Min_le)

theorem find_path_or_le_child_witness:
  "node_type example_or_root = OR \<and> example_or_B \<in> set (children example_or_root) \<and>
   path_score (find_path example_or_root ''difficulty'') ''difficulty'' \<le>
   path_score (find_path example_or_B ''difficulty'') ''difficulty''"
proof -
  have h: "node_type example_or_root = OR" "example_or_B \<in> set (children example_or_root)"
    by (simp_all add: example_or_root_def mk_node_def)
  show ?thesis using h find_path_or_le_child [OF h, of "''difficulty''"] by simp
qed

text \<open>C5. All-steps-required law: at an AND node the returned path is the node followed by
  the best paths of all its children in order, and its score is their sum.\<close>

theorem find_path_and_law:
  "node_type n = AND \<Longrightarrow>
   find_path n m = n # concat (map (\<lambda>c. find_path c m) (children n)) \<and>
   path_score (find_path n m) m = sum_list (map (\<lambda>c. path_score (find_path c m) m) (children n))"
  by (simp add: find_path_and path_score_concat comp_def)

theorem find_path_and_law_witness:
  "node_type example_and_root = AND \<and>
   find_path example_and_root ''cost'' =
     example_and_root # concat (map (\<lambda>c. find_path c ''cost'') (children example_and_root)) \<and>
   path_score (find_path example_and_root ''cost'') ''cost'' =
     sum_list (map (\<lambda>c. path_score (find_path c ''cost'') ''cost'') (children example_and_root))"
proof -
  have h: "node_type example_and_root = AND" by (simp add: example_and_root_def mk_node_def)
  show ?thesis using h find_path_and_law [OF h, of "''cost''"] by blast
qed

text \<open>C6. Leaf law: at a leaf the path is the leaf alone and scores the leaf's own ordinal
  for the metric (difficulty 1..5, cost and detection risk 0..4).\<close>

theorem find_path_leaf_law:
  "node_type n = LEAF \<Longrightarrow> find_path n m = [n] \<and> path_score (find_path n m) m = metric_value m n"
  by (simp add: find_path_eq [of n])

theorem find_path_leaf_law_witness:
  "node_type example_or_A = LEAF \<and> find_path example_or_A ''difficulty'' = [example_or_A] \<and>
   path_score (find_path example_or_A ''difficulty'') ''difficulty'' = 1"
proof -
  have h: "node_type example_or_A = LEAF" by (simp add: tree_defs)
  have v: "metric_value ''difficulty'' example_or_A = 1"
    by (simp add: metric_value_def tree_defs)
  show ?thesis using h v find_path_leaf_law [OF h, of "''difficulty''"] by simp
qed

text \<open>C7. Tie-breaking: at an OR node with children the search takes the first child whose
  best path has the least score (the comparison is strict, so a later child of equal score
  never replaces an earlier one).\<close>

theorem find_path_or_first_minimum:
  "node_type n = OR \<Longrightarrow> children n \<noteq> [] \<Longrightarrow>
   \<exists>k<length (children n). find_path n m = n # find_path (children n ! k) m \<and>
     (\<forall>j<k. path_score (find_path (children n ! k) m) m < path_score (find_path (children n ! j) m) m) \<and>
     (\<forall>j<length (children n).
        path_score (find_path (children n ! k) m) m \<le> path_score (find_path (children n ! j) m) m)"
  using find_path_or_first_min [of n m] by (auto simp: child_score_def)

theorem find_path_or_first_minimum_witness:
  "node_type example_or_root = OR \<and> children example_or_root \<noteq> [] \<and>
   find_path example_or_root ''difficulty'' = [example_or_root, example_or_A]"
proof -
  have h: "node_type example_or_root = OR" "children example_or_root \<noteq> []"
    by (simp_all add: example_or_root_def mk_node_def)
  from find_path_or_first_minimum [OF h, of "''difficulty''"] obtain k where
    k: "k < length (children example_or_root)"
       "find_path example_or_root ''difficulty'' = example_or_root # find_path (children example_or_root ! k) ''difficulty''"
       "\<forall>j<k. path_score (find_path (children example_or_root ! k) ''difficulty'') ''difficulty'' <
              path_score (find_path (children example_or_root ! j) ''difficulty'') ''difficulty''"
       "\<forall>j<length (children example_or_root).
          path_score (find_path (children example_or_root ! k) ''difficulty'') ''difficulty'' \<le>
          path_score (find_path (children example_or_root ! j) ''difficulty'') ''difficulty''"
    by blast
  have "k = 0"
  proof (rule ccontr)
    assume "k \<noteq> 0"
    then have "k = 1" using k(1) by (simp add: example_or_root_def mk_node_def)
    with k(4) show False
      by (auto dest: spec [of _ 0] simp: tree_defs metric_value_def is_leaf_def)
  qed
  with h k(2) show ?thesis by (simp add: tree_defs)
qed

text \<open>C8. Dead end: an OR or AND node without children is returned alone, as a leaf would
  be, and contributes 0 to the score.\<close>

theorem find_path_dead_end:
  "node_type n \<noteq> LEAF \<Longrightarrow> children n = [] \<Longrightarrow> find_path n m = [n] \<and> path_score (find_path n m) m = 0"
  by (simp add: find_path_eq [of n])

theorem find_path_dead_end_witness:
  "node_type (mk_node ''G'' ''goal'' '''' OR) \<noteq> LEAF \<and> children (mk_node ''G'' ''goal'' '''' OR) = [] \<and>
   find_path (mk_node ''G'' ''goal'' '''' OR) ''cost'' = [mk_node ''G'' ''goal'' '''' OR]"
proof -
  have h: "node_type (mk_node ''G'' ''goal'' '''' OR) \<noteq> LEAF" "children (mk_node ''G'' ''goal'' '''' OR) = []"
    by (simp_all add: mk_node_def)
  show ?thesis using h find_path_dead_end [OF h, of "''cost''"] by simp
qed

text \<open>C9. Unknown metric: for a metric string other than the three the source dispatches
  on, every score is 0, so an OR node always takes its first child.\<close>

theorem find_path_unknown_metric:
  "m \<notin> {''difficulty'', ''cost'', ''detection''} \<Longrightarrow> node_type n = OR \<Longrightarrow> children n = c # cs \<Longrightarrow>
   find_path n m = n # find_path c m"
proof -
  assume m: "m \<notin> {''difficulty'', ''cost'', ''detection''}" and t: "node_type n = OR"
    and cs: "children n = c # cs"
  have zero: "\<And>x. child_score m x = 0" using m by (simp add: child_score_def path_score_def)
  obtain k where "k < length (children n)" "\<forall>j<k. child_score m (children n ! k) < child_score m (children n ! j)"
    "find_path n m = n # find_path (children n ! k) m"
    using find_path_or_first_min [of n m] t cs by auto
  with zero cs show ?thesis by (cases k) auto
qed

theorem find_path_unknown_metric_witness:
  "''time'' \<notin> {''difficulty'', ''cost'', ''detection''} \<and> node_type example_or_root = OR \<and>
   children example_or_root = [example_or_A, example_or_B] \<and>
   find_path example_or_root ''time'' = [example_or_root, example_or_A]"
proof -
  have h: "''time'' \<notin> {''difficulty'', ''cost'', ''detection''}" "node_type example_or_root = OR"
    "children example_or_root = [example_or_A, example_or_B]"
    by (simp_all add: example_or_root_def mk_node_def)
  have "find_path example_or_A ''time'' = [example_or_A]" by (simp add: tree_defs)
  then show ?thesis using h find_path_unknown_metric [OF h] by simp
qed

end
