(* ===== verification/Leaf_Enum.thy ===== *)
theory Leaf_Enum
  imports Path_Search
begin

text \<open>
  \<open>AttackTree.get_all_leaf_attacks\<close>, \<open>AttackTree._collect_leaves\<close> and
  \<open>AttackTree.get_unmitigated_attacks\<close>. The list \<open>leaves\<close> that \<open>_collect_leaves\<close>
  appends to in place is passed and returned explicitly; the \<open>for\<close> loop over the children
  is the helper \<open>collect_children\<close>. The collector is proved equal to filtering the
  pre-order traversal, which gives the counting and subset laws of the specification.
\<close>

fun collect_leaves :: "attack_node \<Rightarrow> attack_node list \<Rightarrow> attack_node list"
and collect_children :: "attack_node list \<Rightarrow> attack_node list \<Rightarrow> attack_node list" where
  "collect_leaves (AttackNode i n d t a cs ms cv fr) leaves =
     (let node = AttackNode i n d t a cs ms cv fr;
          leaves' = (if t = LEAF then leaves @ [node] else leaves) in
      collect_children cs leaves')"
| "collect_children [] leaves = leaves"
| "collect_children (child # cs) leaves = collect_children cs (collect_leaves child leaves)"

definition get_all_leaf_attacks :: "attack_tree \<Rightarrow> attack_node list" where
  "get_all_leaf_attacks t = collect_leaves (root t) []"

definition get_unmitigated_attacks :: "attack_tree \<Rightarrow> attack_node list" where
  "get_unmitigated_attacks t = [n \<leftarrow> get_all_leaf_attacks t. mitigations n = []]"

lemma collect_leaves_preorder:
  "collect_leaves n leaves = leaves @ filter is_leaf (preorder n)"
  "collect_children cs leaves = leaves @ concat (map (\<lambda>c. filter is_leaf (preorder c)) cs)"
  by (induction n leaves and cs leaves rule: collect_leaves_collect_children.induct)
     (simp_all add: Let_def is_leaf_def filter_concat comp_def)

lemma get_all_leaf_attacks_eq: "get_all_leaf_attacks t = filter is_leaf (preorder (root t))"
  by (simp add: get_all_leaf_attacks_def collect_leaves_preorder)

text \<open>C10. Equivalence with the reference traversal: \<open>get_all_leaf_attacks\<close> returns the
  LEAF nodes of the tree in depth-first pre-order (a node before its children, children in
  stored order), also below a LEAF that was given children against the invariant.\<close>

theorem get_all_leaf_attacks_preorder:
  "get_all_leaf_attacks t = [n \<leftarrow> preorder (root t). node_type n = LEAF]"
  by (simp add: get_all_leaf_attacks_def collect_leaves_preorder is_leaf_def [abs_def])

text \<open>C11. Counting law: the number of leaf attacks plus the number of non-leaf nodes is
  the number of nodes of the tree.\<close>

theorem leaf_count_plus_inner_count:
  "length (get_all_leaf_attacks t) + length [n \<leftarrow> preorder (root t). node_type n \<noteq> LEAF] =
   tree_size (root t)"
  using sum_length_filter_compl [of "\<lambda>n. node_type n = LEAF" "preorder (root t)"]
  by (simp add: get_all_leaf_attacks_eq is_leaf_def [abs_def] tree_size_def)

text \<open>C12. Unmitigated attacks: a node is reported unmitigated exactly when it is a LEAF of
  the tree with an empty mitigation list; in particular the unmitigated attacks are among
  the leaf attacks.\<close>

theorem unmitigated_attacks_iff:
  "n \<in> set (get_unmitigated_attacks t) \<longleftrightarrow>
   n \<in> set (preorder (root t)) \<and> node_type n = LEAF \<and> mitigations n = []"
  by (auto simp: get_unmitigated_attacks_def get_all_leaf_attacks_eq is_leaf_def)

text \<open>C13. Each exactly once: in a tree whose ids are unique every leaf attack is listed
  once.\<close>

theorem leaf_attacks_distinct:
  "distinct (tree_ids (root t)) \<Longrightarrow> distinct (get_all_leaf_attacks t)"
  by (simp add: get_all_leaf_attacks_eq tree_ids_def distinct_map)

theorem leaf_attacks_distinct_witness:
  "distinct (tree_ids (root example_or_tree)) \<and>
   distinct (get_all_leaf_attacks example_or_tree)"
proof -
  have h: "distinct (tree_ids (root example_or_tree))"
    by (simp add: tree_ids_def tree_defs)
  show ?thesis using h leaf_attacks_distinct [OF h] by simp
qed

end
