(* ===== verification/Mermaid_Export.thy ===== *)
theory Mermaid_Export
  imports Leaf_Enum
begin

text \<open>
  \<open>MermaidExporter\<close>: its state (\<open>tree\<close>, \<open>_lines\<close>, \<open>_node_count\<close>, \<open>_node_ids\<close>)
  is a record threaded through \<open>_export_node\<close>, whose \<open>for\<close> loop over the children is
  \<open>export_children\<close>; the dict \<open>_node_ids\<close> is a map. The f-strings of the source are
  string concatenations (\<open>sq\<close> is the single quote), \<open>str(n)\<close> is \<open>nat_str\<close> and
  \<open>"\n".join\<close> is \<open>py_join\<close>. The lines a node contributes are built by
  \<open>node_shape\<close>, \<open>style_line\<close> and \<open>edge_line\<close>, in the order \<open>_export_node\<close>
  appends them (for a leaf the style directive comes before the shape).

  The exporter is specified by \<open>render\<close>: the lines of a tree, each tagged with its kind,
  for a given assignment of diagram identifiers. The identifier map only grows, so every
  line the exporter emits agrees with the final map.
\<close>

section \<open>State and operations\<close>

record mermaid_exporter =
  tree :: attack_tree
  lines :: "string list"
  node_count :: nat
  node_ids :: "string \<rightharpoonup> string"

definition init_exporter :: "attack_tree \<Rightarrow> mermaid_exporter" where
  "init_exporter t = \<lparr>tree = t, lines = [], node_count = 0, node_ids = Map.empty\<rparr>"

definition sq :: char where
  "sq = CHR 0x27"

definition leaf_colors :: "difficulty \<rightharpoonup> string" where
  "leaf_colors =
     [D_TRIVIAL \<mapsto> ''fill:#ff6b6b,stroke:#c92a2a,stroke-width:3px'',
      D_LOW \<mapsto> ''fill:#ffa06b,stroke:#e67700,stroke-width:2px'',
      D_MEDIUM \<mapsto> ''fill:#ffd93d,stroke:#fab005,stroke-width:2px'',
      D_HIGH \<mapsto> ''fill:#6bcb77,stroke:#2f9e44,stroke-width:2px'',
      D_EXPERT \<mapsto> ''fill:#4d96ff,stroke:#1971c2,stroke-width:2px'']"

definition get_leaf_style :: "attack_node \<Rightarrow> string" where
  "get_leaf_style node =
     (let color = (case leaf_colors (difficulty (attributes node)) of
                     Some c \<Rightarrow> c | None \<Rightarrow> ''fill:#gray'');
          has_mitigation = (if mitigations node \<noteq> [] then ''stroke:#51cf66,stroke-width:3px'' else '''')
      in if has_mitigation = [] then color else ''fill:#d3f9d8,'' @ has_mitigation)"

definition node_shape :: "string \<Rightarrow> attack_node \<Rightarrow> string" where
  "node_shape nid node =
     (if node_type node = OR then nid @ ''(('' @ [sq] @ name node @ [sq] @ '')''
      else nid @ ''['' @ [sq] @ name node @ [sq] @ '']'')"

definition style_line :: "string \<Rightarrow> attack_node \<Rightarrow> string" where
  "style_line nid node = ''    style '' @ nid @ '' '' @ get_leaf_style node"

definition edge_line :: "string \<Rightarrow> attack_node \<Rightarrow> string \<Rightarrow> string" where
  "edge_line pid node nid =
     (let connector = (if node_type node \<noteq> AND then ''-->'' else ''==>'')
      in ''    '' @ pid @ '' '' @ connector @ '' '' @ nid)"

definition emit :: "string \<Rightarrow> mermaid_exporter \<Rightarrow> mermaid_exporter" where
  "emit l st = st\<lparr>lines := lines st @ [l]\<rparr>"

text \<open>Lines 197--202: the memoised identifier of a node id.\<close>

definition assign_id :: "string \<Rightarrow> mermaid_exporter \<Rightarrow> string \<times> mermaid_exporter" where
  "assign_id i st =
     (case node_ids st i of
        Some nid \<Rightarrow> (nid, st)
      | None \<Rightarrow> (let nid = ''N'' @ nat_str (node_count st) in
                 (nid, st\<lparr>node_count := node_count st + 1, node_ids := (node_ids st)(i \<mapsto> nid)\<rparr>)))"

text \<open>Lines 204--217: the shape (after the style directive, for a leaf) and the edge from
  the parent, if \<open>parent_id\<close> is a non-empty string.\<close>

definition emit_node_lines :: "string option \<Rightarrow> attack_node \<Rightarrow> string \<Rightarrow> mermaid_exporter \<Rightarrow> mermaid_exporter" where
  "emit_node_lines pid node nid st1 =
     (let st2 = (if node_type node = OR \<or> node_type node = AND then st1
                 else emit (style_line nid node) st1);
          st3 = emit (''    '' @ node_shape nid node) st2
      in case pid of
           Some p \<Rightarrow> if p \<noteq> [] then emit (edge_line p node nid) st3 else st3
         | None \<Rightarrow> st3)"

fun export_node :: "attack_node \<Rightarrow> string option \<Rightarrow> mermaid_exporter \<Rightarrow> string \<times> mermaid_exporter"
and export_children :: "attack_node list \<Rightarrow> string \<Rightarrow> mermaid_exporter \<Rightarrow> mermaid_exporter" where
  "export_node (AttackNode i n d t a cs ms cv fr) pid st =
     (let node = AttackNode i n d t a cs ms cv fr;
          nid = fst (assign_id i st);
          st4 = emit_node_lines pid node nid (snd (assign_id i st))
      in (nid, export_children cs nid st4))"
| "export_children [] nid st = st"
| "export_children (child # cs) nid st = export_children cs nid (snd (export_node child (Some nid) st))"

definition legend :: "string list" where
  "legend =
     [''\<newline>    classDef trivial fill:#ff6b6b,stroke:#c92a2a,stroke-width:3px'',
      ''    classDef low fill:#ffa06b,stroke:#e67700,stroke-width:2px'',
      ''    classDef medium fill:#ffd93d,stroke:#fab005,stroke-width:2px'',
      ''    classDef high fill:#6bcb77,stroke:#2f9e44,stroke-width:2px'',
      ''    classDef expert fill:#4d96ff,stroke:#1971c2,stroke-width:2px'']"

definition add_legend :: "mermaid_exporter \<Rightarrow> mermaid_exporter" where
  "add_legend st = st\<lparr>lines := lines st @ legend\<rparr>"

definition export :: "mermaid_exporter \<Rightarrow> string \<times> mermaid_exporter" where
  "export st =
     (let st1 = st\<lparr>lines := [''flowchart TD'']\<rparr>;
          st2 = snd (export_node (root (tree st1)) None st1);
          st3 = add_legend st2
      in (py_join ''\<newline>'' (lines st3), st3))"

section \<open>Specification: the lines of a tree under an identifier assignment\<close>

datatype line_kind = Style_Line | Shape_Line | Edge_Line

text \<open>The lines one node contributes, tagged with their kind.\<close>

definition node_block :: "string option \<Rightarrow> attack_node \<Rightarrow> string \<Rightarrow> (line_kind \<times> string) list" where
  "node_block pid node nid =
     (if node_type node = OR \<or> node_type node = AND then [] else [(Style_Line, style_line nid node)]) @
     [(Shape_Line, ''    '' @ node_shape nid node)] @
     (case pid of
        Some p \<Rightarrow> if p \<noteq> [] then [(Edge_Line, edge_line p node nid)] else []
      | None \<Rightarrow> [])"

fun render :: "(string \<rightharpoonup> string) \<Rightarrow> attack_node \<Rightarrow> string option \<Rightarrow> (line_kind \<times> string) list"
and render_children :: "(string \<rightharpoonup> string) \<Rightarrow> attack_node list \<Rightarrow> string \<Rightarrow> (line_kind \<times> string) list" where
  "render m (AttackNode i n d t a cs ms cv fr) pid =
     (let node = AttackNode i n d t a cs ms cv fr; nid = the (m i) in
      node_block pid node nid @ render_children m cs nid)"
| "render_children m [] nid = []"
| "render_children m (child # cs) nid = render m child (Some nid) @ render_children m cs nid"

text \<open>The invariant of the identifier memo: \<open>_node_count\<close> identifiers \<open>N0\<close>, \<open>N1\<close>, ...
  handed out, one per recorded node id, no two ids sharing one.\<close>

definition ids_ok :: "mermaid_exporter \<Rightarrow> bool" where
  "ids_ok st \<longleftrightarrow>
     finite (dom (node_ids st)) \<and> card (dom (node_ids st)) = node_count st \<and>
     inj_on (node_ids st) (dom (node_ids st)) \<and>
     ran (node_ids st) = (\<lambda>k. ''N'' @ nat_str k) ` {..<node_count st}"


definition ids_nonempty :: "(string \<rightharpoonup> string) \<Rightarrow> attack_node \<Rightarrow> bool" where
  "ids_nonempty m n \<longleftrightarrow> (\<forall>x\<in>set (tree_ids n). \<exists>v. m x = Some v \<and> v \<noteq> [])"



section \<open>Lemmas on the state\<close>

lemma emit_sel [simp]:
  "lines (emit l st) = lines st @ [l]" "node_ids (emit l st) = node_ids st"
  "node_count (emit l st) = node_count st" "tree (emit l st) = tree st"
  by (simp_all add: emit_def)

lemma assign_id_sel [simp]:
  "lines (snd (assign_id i st)) = lines st" "tree (snd (assign_id i st)) = tree st"
  by (simp_all add: assign_id_def Let_def split: option.splits)

lemma assign_id_lookup: "node_ids (snd (assign_id i st)) i = Some (fst (assign_id i st))"
  by (simp add: assign_id_def Let_def split: option.splits)

lemma assign_id_ids:
  "node_ids (snd (assign_id i st)) = (node_ids st)(i \<mapsto> fst (assign_id i st))"
  by (auto simp: assign_id_def Let_def split: option.splits)

lemma emit_node_lines_sel [simp]:
  "node_ids (emit_node_lines p n nid st) = node_ids st"
  "node_count (emit_node_lines p n nid st) = node_count st"
  "tree (emit_node_lines p n nid st) = tree st"
  "lines (emit_node_lines p n nid st) = lines st @ map snd (node_block p n nid)"
  by (simp_all add: emit_node_lines_def node_block_def Let_def split: option.splits)

lemma assign_id_mono: "node_ids st \<subseteq>\<^sub>m node_ids (snd (assign_id i st))"
  by (auto simp: assign_id_def Let_def map_le_def split: option.splits)

lemma dom_assign_id: "dom (node_ids (snd (assign_id i st))) = insert i (dom (node_ids st))"
  by (auto simp: assign_id_def Let_def split: option.splits)

lemma export_ids:
  "node_ids st \<subseteq>\<^sub>m node_ids (snd (export_node n p st)) \<and>
   dom (node_ids (snd (export_node n p st))) = dom (node_ids st) \<union> set (tree_ids n) \<and>
   node_ids (snd (export_node n p st)) (node_id n) = Some (fst (export_node n p st)) \<and>
   tree (snd (export_node n p st)) = tree st"
  "node_ids st \<subseteq>\<^sub>m node_ids (export_children cs q st) \<and>
   dom (node_ids (export_children cs q st)) = dom (node_ids st) \<union> (\<Union>c\<in>set cs. set (tree_ids c)) \<and>
   tree (export_children cs q st) = tree st"
proof (induction n p st and cs q st rule: export_node_export_children.induct)
  case (1 i nm d t a cs ms cv fr p st)
  define nid where "nid = fst (assign_id i st)"
  define st4 where "st4 = emit_node_lines p (AttackNode i nm d t a cs ms cv fr) nid (snd (assign_id i st))"
  have IH: "node_ids st4 \<subseteq>\<^sub>m node_ids (export_children cs nid st4) \<and>
     dom (node_ids (export_children cs nid st4)) = dom (node_ids st4) \<union> (\<Union>c\<in>set cs. set (tree_ids c)) \<and>
     tree (export_children cs nid st4) = tree st4"
    using "1.IH" [OF refl nid_def st4_def] .
  have st4: "node_ids st4 = node_ids (snd (assign_id i st))" "tree st4 = tree st"
    by (simp_all add: st4_def)
  have "node_ids st4 i = Some nid"
    using st4 assign_id_lookup by (simp add: nid_def)
  with IH have look: "node_ids (export_children cs nid st4) i = Some nid"
    by (metis domI map_le_def)
  have mono: "node_ids st \<subseteq>\<^sub>m node_ids (export_children cs nid st4)"
    using assign_id_mono IH st4 map_le_trans by metis
  show ?case
    using mono look IH st4
    by (simp add: Let_def nid_def [symmetric] st4_def [symmetric] dom_assign_id tree_ids_def
        map_concat comp_def)
next
  case (2 q st)
  then show ?case by simp
next
  case (3 child cs q st)
  then show ?case by (auto intro: map_le_trans)
qed


lemma export_node_snd:
  "snd (export_node n p st) =
     export_children (children n) (fst (assign_id (node_id n) st))
       (emit_node_lines p n (fst (assign_id (node_id n) st)) (snd (assign_id (node_id n) st)))"
  "fst (export_node n p st) = fst (assign_id (node_id n) st)"
  by (cases n; simp add: Let_def)+

lemma export_lines:
  "node_ids (snd (export_node n p st)) \<subseteq>\<^sub>m m \<Longrightarrow>
   lines (snd (export_node n p st)) = lines st @ map snd (render m n p)"
  "node_ids (export_children cs q st) \<subseteq>\<^sub>m m \<Longrightarrow>
   lines (export_children cs q st) = lines st @ map snd (render_children m cs q)"
proof (induction n p st and cs q st rule: export_node_export_children.induct)
  case (1 i nm d t a cs ms cv fr p st)
  define node where "node = AttackNode i nm d t a cs ms cv fr"
  define nid where "nid = fst (assign_id i st)"
  define st4 where "st4 = emit_node_lines p node nid (snd (assign_id i st))"
  have final: "snd (export_node node p st) = export_children cs nid st4"
    by (simp add: node_def nid_def st4_def Let_def)
  have "node_ids (export_children cs nid st4) \<subseteq>\<^sub>m m"
    using "1.prems" final by (simp add: node_def)
  then have IH: "lines (export_children cs nid st4) = lines st4 @ map snd (render_children m cs nid)"
    using "1.IH" [OF refl nid_def [unfolded node_def [symmetric]]] st4_def by (simp add: node_def)
  have "node_ids (snd (export_node node p st)) i = Some nid"
    using export_ids(1) [of st node p] by (simp add: node_def nid_def Let_def)
  with "1.prems" have "m i = Some nid"
    by (metis domI map_le_def node_def)
  with IH final show ?case
    by (simp add: node_def Let_def st4_def)
next
  case (2 q st)
  then show ?case by simp
next
  case (3 child cs q st)
  have "node_ids (snd (export_node child (Some q) st)) \<subseteq>\<^sub>m m"
    using "3.prems" export_ids(2) [of "snd (export_node child (Some q) st)" cs q] map_le_trans
    by fastforce
  with 3 show ?case by simp
qed

lemma ids_ok_emit_node_lines [simp]: "ids_ok (emit_node_lines p n nid st) = ids_ok st"
  by (simp add: ids_ok_def)

lemma assign_id_ids_ok: "ids_ok st \<Longrightarrow> ids_ok (snd (assign_id i st))"
proof (cases "node_ids st i")
  case None
  assume ok: "ids_ok st"
  define c where "c = node_count st"
  define nid where "nid = ''N'' @ nat_str c"
  have st': "snd (assign_id i st) = st\<lparr>node_count := Suc c, node_ids := (node_ids st)(i \<mapsto> nid)\<rparr>"
    using None by (simp add: assign_id_def c_def nid_def Let_def)
  have fresh: "nid \<notin> ran (node_ids st)"
    using ok by (auto simp: ids_ok_def nid_def c_def)
  have i_notin: "i \<notin> dom (node_ids st)" using None by auto
  from fresh have fresh': "\<And>a. node_ids st a \<noteq> Some nid" by (auto simp: ran_def)
  have "inj_on ((node_ids st)(i \<mapsto> nid)) (insert i (dom (node_ids st)))"
  proof (rule inj_onI)
    fix x y
    assume x: "x \<in> insert i (dom (node_ids st))" and y: "y \<in> insert i (dom (node_ids st))"
      and eq: "((node_ids st)(i \<mapsto> nid)) x = ((node_ids st)(i \<mapsto> nid)) y"
    have inj: "inj_on (node_ids st) (dom (node_ids st))" using ok by (simp add: ids_ok_def)
    show "x = y"
    proof (cases "x = i \<or> y = i")
      case True
      with eq fresh' show ?thesis by (auto split: if_splits)
    next
      case False
      with x y eq inj show ?thesis by (auto dest: inj_onD)
    qed
  qed
  moreover have "ran ((node_ids st)(i \<mapsto> nid)) = (\<lambda>k. ''N'' @ nat_str k) ` {..<Suc c}"
    using ok None by (simp add: ids_ok_def ran_map_upd lessThan_Suc nid_def c_def)
  ultimately show ?thesis
    using ok i_notin st' by (simp add: ids_ok_def c_def)
qed (simp add: assign_id_def)

lemma export_ids_ok:
  "ids_ok st \<Longrightarrow> ids_ok (snd (export_node n p st))"
  "ids_ok st \<Longrightarrow> ids_ok (export_children cs q st)"
proof (induction n p st and cs q st rule: export_node_export_children.induct)
  case (1 i nm d t a cs ms cv fr p st)
  from "1.prems" have "ids_ok (snd (assign_id i st))" by (rule assign_id_ids_ok)
  with "1.IH" [OF refl refl refl] show ?case by (simp add: Let_def)
qed simp_all

lemma ids_ok_init: "ids_ok (init_exporter t)"
  by (simp add: ids_ok_def init_exporter_def)


lemma or_and_iff_not_leaf: "(t = OR \<or> t = AND) \<longleftrightarrow> t \<noteq> LEAF"
  by (cases t) simp_all

lemma render_shape_count:
  "length [l \<leftarrow> render m n p. fst l = Shape_Line] = tree_size n"
  "length [l \<leftarrow> render_children m cs q. fst l = Shape_Line] = sum_list (map tree_size cs)"
  by (induction m n p and m cs q rule: render_render_children.induct)
     (simp_all add: node_block_def Let_def tree_size_eq [of "AttackNode _ _ _ _ _ _ _ _ _"]
      split: option.splits)

lemma render_style_count:
  "length [l \<leftarrow> render m n p. fst l = Style_Line] = length (filter is_leaf (preorder n))"
  "length [l \<leftarrow> render_children m cs q. fst l = Style_Line] =
     sum_list (map (\<lambda>c. length (filter is_leaf (preorder c))) cs)"
  by (induction m n p and m cs q rule: render_render_children.induct)
     (simp_all add: node_block_def Let_def is_leaf_def or_and_iff_not_leaf length_filter_concat_map
      split: option.splits)

lemma render_edge_count:
  "ids_nonempty m n \<Longrightarrow>
   length [l \<leftarrow> render m n p. fst l = Edge_Line] =
     tree_size n - 1 + (case p of Some q \<Rightarrow> if q \<noteq> [] then 1 else 0 | None \<Rightarrow> 0)"
  "q \<noteq> [] \<Longrightarrow> (\<forall>c\<in>set cs. ids_nonempty m c) \<Longrightarrow>
   length [l \<leftarrow> render_children m cs q. fst l = Edge_Line] = sum_list (map tree_size cs)"
proof (induction m n p and m cs q rule: render_render_children.induct)
  case (1 m i nm d t a cs ms cv fr p)
  then obtain v where v: "m i = Some v" "v \<noteq> []"
    by (auto simp: ids_nonempty_def tree_ids_def)
  have "\<forall>c\<in>set cs. ids_nonempty m c"
    using "1.prems" by (auto simp: ids_nonempty_def tree_ids_def)
  with "1.IH" [OF refl] v show ?case
    by (simp add: node_block_def Let_def tree_size_eq [of "AttackNode _ _ _ _ _ _ _ _ _"]
        split: option.splits)
next
  case (3 m child cs q)
  then show ?case using tree_size_eq [of child] by simp
qed simp

lemma export_snd_sel:
  "tree (snd (export st)) = tree st"
  "lines (snd (export st)) =
     ''flowchart TD'' # map snd (render (node_ids (snd (export st))) (root (tree st)) None) @ legend"
  "node_ids (snd (export st)) = node_ids (snd (export_node (root (tree st)) None (st\<lparr>lines := [''flowchart TD'']\<rparr>)))"
  "node_count (snd (export st)) = node_count (snd (export_node (root (tree st)) None (st\<lparr>lines := [''flowchart TD'']\<rparr>)))"
  using export_ids(1) [of "st\<lparr>lines := [''flowchart TD'']\<rparr>" "root (tree st)" None]
    export_lines(1) [of "root (tree st)" None "st\<lparr>lines := [''flowchart TD'']\<rparr>"]
  by (simp_all add: export_def add_legend_def Let_def)

lemma export_fst: "fst (export st) = py_join ''\<newline>'' (lines (snd (export st)))"
  by (simp add: export_def Let_def)

lemma export_init_ids:
  "dom (node_ids (snd (export (init_exporter t)))) = set (tree_ids (root t))"
  "ids_ok (snd (export (init_exporter t)))"
proof -
  show "dom (node_ids (snd (export (init_exporter t)))) = set (tree_ids (root t))"
    using export_ids(1) [of "(init_exporter t)\<lparr>lines := [''flowchart TD'']\<rparr>" "root t" None]
    by (simp add: export_snd_sel(3) init_exporter_def)
  have "ids_ok ((init_exporter t)\<lparr>lines := [''flowchart TD'']\<rparr>)"
    using ids_ok_init by (simp add: ids_ok_def)
  then have "ids_ok (snd (export_node (root t) None ((init_exporter t)\<lparr>lines := [''flowchart TD'']\<rparr>)))"
    by (rule export_ids_ok(1))
  then show "ids_ok (snd (export (init_exporter t)))"
    using export_snd_sel(3,4) [of "init_exporter t"] by (simp add: ids_ok_def init_exporter_def)
qed

lemma export_init_ids_nonempty:
  "ids_nonempty (node_ids (snd (export (init_exporter t)))) (root t)"
proof -
  let ?m = "node_ids (snd (export (init_exporter t)))"
  have "\<And>x. x \<in> set (tree_ids (root t)) \<Longrightarrow> \<exists>v. ?m x = Some v \<and> v \<noteq> []"
  proof -
    fix x
    assume "x \<in> set (tree_ids (root t))"
    then obtain v where v: "?m x = Some v" using export_init_ids(1) by blast
    then have "v \<in> ran ?m" by (auto simp: ran_def)
    then have "v \<noteq> []" using export_init_ids(2) by (auto simp: ids_ok_def)
    with v show "\<exists>v. ?m x = Some v \<and> v \<noteq> []" by blast
  qed
  then show ?thesis by (simp add: ids_nonempty_def)
qed

lemma length_by_kind:
  "length xs = length [l \<leftarrow> xs. fst l = Shape_Line] + length [l \<leftarrow> xs. fst l = Edge_Line] +
     length [l \<leftarrow> xs. fst l = Style_Line]"
proof (induction xs)
  case (Cons x xs)
  then show ?case by (cases "fst x") auto
qed simp

lemma export_reexport_ids:
  "node_ids (snd (export (snd (export st)))) = node_ids (snd (export st))"
proof -
  let ?s1 = "snd (export st)"
  have d1: "dom (node_ids ?s1) = dom (node_ids st) \<union> set (tree_ids (root (tree st)))"
    using export_ids(1) [of "st\<lparr>lines := [''flowchart TD'']\<rparr>" "root (tree st)" None]
    by (simp add: export_snd_sel(3))
  have le: "node_ids ?s1 \<subseteq>\<^sub>m node_ids (snd (export ?s1))"
    and d2: "dom (node_ids (snd (export ?s1))) = dom (node_ids ?s1) \<union> set (tree_ids (root (tree st)))"
    using export_ids(1) [of "?s1\<lparr>lines := [''flowchart TD'']\<rparr>" "root (tree ?s1)" None]
    by (simp_all add: export_snd_sel(1,3))
  from le d1 d2 show ?thesis by (intro map_le_dom_eq) auto
qed


section \<open>Properties of the exporter\<close>

text \<open>C22. Refinement: the text \<open>export\<close> returns is the header, the lines of
  \<open>render\<close> under the final identifier map (for every node in pre-order: its style
  directive if it is a leaf, its shape, the edge from its parent), and the legend, joined by
  newlines; this holds for every exporter state, fresh or reused.\<close>

theorem export_refines_render:
  "fst (export st) =
   py_join ''\<newline>''
     (''flowchart TD'' # map snd (render (node_ids (snd (export st))) (root (tree st)) None) @ legend)"
  by (simp add: export_fst export_snd_sel(2))

text \<open>C23. The identifier memo invariant holds after every export that starts from a
  state where it holds: \<open>_node_count\<close> identifiers \<open>N0 .. N(k-1)\<close> are handed out, one
  per recorded node id, and no two ids share one.\<close>

theorem export_keeps_ids_ok: "ids_ok st \<Longrightarrow> ids_ok (snd (export st))"
proof -
  assume "ids_ok st"
  then have "ids_ok (st\<lparr>lines := [''flowchart TD'']\<rparr>)" by (simp add: ids_ok_def)
  then have "ids_ok (snd (export_node (root (tree st)) None (st\<lparr>lines := [''flowchart TD'']\<rparr>)))"
    by (rule export_ids_ok(1))
  then show ?thesis using export_snd_sel(3,4) [of st] by (simp add: ids_ok_def)
qed

theorem export_keeps_ids_ok_witness:
  "ids_ok (init_exporter example_or_tree) \<and> ids_ok (snd (export (init_exporter example_or_tree)))"
  using ids_ok_init export_keeps_ids_ok [OF ids_ok_init] by blast

text \<open>C24. A fresh exporter hands out exactly one identifier per distinct node id of the
  tree: the memo's keys are the tree's ids and \<open>_node_count\<close> is their number.\<close>

theorem export_one_identifier_per_id:
  "dom (node_ids (snd (export (init_exporter t)))) = set (tree_ids (root t)) \<and>
   node_count (snd (export (init_exporter t))) = card (set (tree_ids (root t)))"
  using export_init_ids by (simp add: ids_ok_def)

text \<open>C25. Line counts of a fresh export: one shape line per node visited, one edge line per
  node but the root, one style directive per leaf; with the header and the five legend
  lines that is \<open>2 * nodes + leaves + 5\<close> lines.\<close>

theorem export_line_counts:
  "length [l \<leftarrow> render (node_ids (snd (export (init_exporter t)))) (root t) None. fst l = Shape_Line] =
     tree_size (root t) \<and>
   length [l \<leftarrow> render (node_ids (snd (export (init_exporter t)))) (root t) None. fst l = Edge_Line] =
     tree_size (root t) - 1 \<and>
   length [l \<leftarrow> render (node_ids (snd (export (init_exporter t)))) (root t) None. fst l = Style_Line] =
     length (get_all_leaf_attacks t) \<and>
   length (lines (snd (export (init_exporter t)))) = 2 * tree_size (root t) + length (get_all_leaf_attacks t) + 5"
proof -
  let ?r = "render (node_ids (snd (export (init_exporter t)))) (root t) None"
  have sh: "length [l \<leftarrow> ?r. fst l = Shape_Line] = tree_size (root t)"
    by (rule render_shape_count(1))
  have ed: "length [l \<leftarrow> ?r. fst l = Edge_Line] = tree_size (root t) - 1"
    using render_edge_count(1) [OF export_init_ids_nonempty, where p = None] by simp
  have st: "length [l \<leftarrow> ?r. fst l = Style_Line] = length (get_all_leaf_attacks t)"
    using render_style_count(1) by (simp add: get_all_leaf_attacks_eq)
  have parts: "length ?r = length [l \<leftarrow> ?r. fst l = Shape_Line] + length [l \<leftarrow> ?r. fst l = Edge_Line] +
      length [l \<leftarrow> ?r. fst l = Style_Line]"
    by (rule length_by_kind)
  have "tree_size (root t) \<ge> 1" by (simp add: tree_size_eq [of "root t"])
  with sh ed st parts show ?thesis
    using export_snd_sel(2) [of "init_exporter t"]
    by (simp add: init_exporter_def legend_def)
qed

text \<open>C26. Re-exporting with the same exporter gives the same text: \<open>export\<close> resets
  \<open>_lines\<close> but keeps the identifier memo, and the memo already holds every id of the
  tree, so the second walk hands out no new identifier.\<close>

theorem export_reexport_stable: "fst (export (snd (export st))) = fst (export st)"
  using export_reexport_ids [of st]
  by (simp add: export_fst export_snd_sel(1,2))

text \<open>C27. The OR shape is unbalanced: \<open>f"{node_id}(('{node.name}')"\<close> opens two
  parentheses and closes one, so an OR node whose identifier and name hold no parentheses
  is written with one more \<open>(\<close> than \<open>)\<close> (Mermaid's circle is \<open>id((text))\<close>).\<close>

theorem or_shape_unbalanced:
  "node_type n = OR \<Longrightarrow>
   count_list (node_shape nid n) (CHR ''('') = count_list nid (CHR ''('') + count_list (name n) (CHR ''('') + 2 \<and>
   count_list (node_shape nid n) (CHR '')'') = count_list nid (CHR '')'') + count_list (name n) (CHR '')'') + 1"
  by (simp add: node_shape_def sq_def)

theorem or_shape_unbalanced_witness:
  "node_type example_or_root = OR \<and>
   count_list (node_shape ''N0'' example_or_root) (CHR ''('') = 2 \<and>
   count_list (node_shape ''N0'' example_or_root) (CHR '')'') = 1"
proof -
  have h: "node_type example_or_root = OR" by (simp add: example_or_root_def mk_node_def)
  have "count_list (name example_or_root) (CHR ''('') = 0" "count_list (name example_or_root) (CHR '')'') = 0"
    by (simp_all add: example_or_root_def mk_node_def)
  then show ?thesis using h or_shape_unbalanced [OF h, of "''N0''"] by simp
qed

text \<open>C28. Leaf style: a leaf with mitigations is drawn in the fixed green "mitigated" style
  whatever its difficulty; an unmitigated leaf gets the colour pair of its difficulty, and
  the \<open>fill:#gray\<close> fallback of \<open>colors.get\<close> is never taken.\<close>

theorem get_leaf_style_cases:
  "get_leaf_style n =
     (if mitigations n \<noteq> [] then ''fill:#d3f9d8,stroke:#51cf66,stroke-width:3px''
      else the (leaf_colors (difficulty (attributes n)))) \<and>
   leaf_colors (difficulty (attributes n)) \<noteq> None"
  by (cases "difficulty (attributes n)") (simp_all add: get_leaf_style_def leaf_colors_def Let_def)


end
