(* ===== verification/Serialization.thy ===== *)
theory Serialization
  imports Leaf_Enum "HOL-Library.Monad_Syntax"
begin

text \<open>
  \<open>AttackTree.to_dict\<close> and \<open>AttackTree._node_to_dict\<close>. A Python dict with string keys
  is a JSON object: an association list in insertion order (\<open>json.dump\<close> writes the keys
  in that order); lists are JSON arrays, \<open>time_hours\<close> a JSON number, enum members are
  written by \<open>.name\<close> and the node type by \<open>.value\<close>.

  Against the serialiser stands a reader that looks fields up by key (\<open>node_of_json\<close>,
  \<open>tree_of_json\<close>) and a walker that re-traverses the JSON (\<open>json_ids\<close>). The round
  trip recovers every field \<open>_node_to_dict\<close> writes; \<open>cve_refs\<close>,
  \<open>requires_insider\<close> and \<open>requires_physical\<close> are not written and come back empty or
  \<open>False\<close> (\<open>serialised_view\<close>).
\<close>

section \<open>JSON values and the serialiser\<close>

datatype json = JStr string | JNum real | JList "json list" | JDict "(string \<times> json) list"

primrec node_to_dict :: "attack_node \<Rightarrow> json" where
  "node_to_dict (AttackNode i n d t a cs ms cv fr) =
     JDict [(''id'', JStr i), (''name'', JStr n), (''description'', JStr d),
            (''type'', JStr (node_type_value t)),
            (''attributes'', JDict [(''difficulty'', JStr (difficulty_name (difficulty a))),
                                   (''cost'', JStr (cost_name (cost a))),
                                   (''detection_risk'', JStr (detection_risk_name (detection_risk a))),
                                   (''time_hours'', JNum (time_hours a))]),
            (''mitigations'', JList (map JStr ms)),
            (''file_refs'', JList (map JStr fr)),
            (''children'', JList (map node_to_dict cs))]"

definition to_dict :: "attack_tree \<Rightarrow> json" where
  "to_dict t =
     JDict [(''name'', JStr (tree_name t)), (''description'', JStr (tree_description t)),
            (''severity'', JStr (severity t)), (''version'', JStr (version t)),
            (''root'', node_to_dict (root t))]"

section \<open>Reading JSON back\<close>

fun dict_get :: "string \<Rightarrow> json \<Rightarrow> json option" where
  "dict_get k (JDict kvs) = map_of kvs k"
| "dict_get k _ = None"

fun json_str :: "json \<Rightarrow> string option" where
  "json_str (JStr s) = Some s"
| "json_str _ = None"

fun json_num :: "json \<Rightarrow> real option" where
  "json_num (JNum x) = Some x"
| "json_num _ = None"

fun json_strs :: "json \<Rightarrow> string list option" where
  "json_strs (JList js) = those (map json_str js)"
| "json_strs _ = None"

definition node_type_of_value :: "string \<Rightarrow> node_type option" where
  "node_type_of_value s =
     (if s = ''or'' then Some OR else if s = ''and'' then Some AND
      else if s = ''leaf'' then Some LEAF else None)"

definition difficulty_of_name :: "string \<Rightarrow> difficulty option" where
  "difficulty_of_name s = find (\<lambda>d. difficulty_name d = s) [D_TRIVIAL, D_LOW, D_MEDIUM, D_HIGH, D_EXPERT]"

definition cost_of_name :: "string \<Rightarrow> cost option" where
  "cost_of_name s = find (\<lambda>c. cost_name c = s) [C_FREE, C_LOW, C_MEDIUM, C_HIGH, C_VERY_HIGH]"

definition detection_risk_of_name :: "string \<Rightarrow> detection_risk option" where
  "detection_risk_of_name s = find (\<lambda>r. detection_risk_name r = s) [R_NONE, R_LOW, R_MEDIUM, R_HIGH, R_CERTAIN]"

definition attributes_of_json :: "json \<Rightarrow> attack_attributes option" where
  "attributes_of_json j = do {
     d \<leftarrow> dict_get ''difficulty'' j \<bind> json_str \<bind> difficulty_of_name;
     c \<leftarrow> dict_get ''cost'' j \<bind> json_str \<bind> cost_of_name;
     r \<leftarrow> dict_get ''detection_risk'' j \<bind> json_str \<bind> detection_risk_of_name;
     h \<leftarrow> dict_get ''time_hours'' j \<bind> json_num;
     Some \<lparr>difficulty = d, cost = c, detection_risk = r, time_hours = h,
           requires_insider = False, requires_physical = False\<rparr>
   }"

lemma size_map_of: "map_of kvs k = Some v \<Longrightarrow> size v < size (JDict kvs)"
proof (induction kvs)
  case Nil
  then show ?case by simp
next
  case (Cons kv kvs)
  then show ?case by (cases kv) (auto split: if_splits)
qed

lemma size_JList_elem: "c \<in> set cs \<Longrightarrow> size c < size (JList cs)"
  by (induction cs) auto

lemma size_child: "Some (JList cs) = map_of kvs k \<Longrightarrow> c \<in> set cs \<Longrightarrow> size c < size (JDict kvs)"
  by (metis less_trans size_JList_elem size_map_of)

function node_of_json :: "json \<Rightarrow> attack_node option" where
  "node_of_json (JDict kvs) =
     (case map_of kvs ''children'' of
        Some (JList cs) \<Rightarrow> do {
          i \<leftarrow> dict_get ''id'' (JDict kvs) \<bind> json_str;
          n \<leftarrow> dict_get ''name'' (JDict kvs) \<bind> json_str;
          d \<leftarrow> dict_get ''description'' (JDict kvs) \<bind> json_str;
          t \<leftarrow> dict_get ''type'' (JDict kvs) \<bind> json_str \<bind> node_type_of_value;
          a \<leftarrow> dict_get ''attributes'' (JDict kvs) \<bind> attributes_of_json;
          ms \<leftarrow> dict_get ''mitigations'' (JDict kvs) \<bind> json_strs;
          fr \<leftarrow> dict_get ''file_refs'' (JDict kvs) \<bind> json_strs;
          ns \<leftarrow> those (map node_of_json cs);
          Some (AttackNode i n d t a ns ms [] fr)
        }
      | _ \<Rightarrow> None)"
| "node_of_json (JStr s) = None"
| "node_of_json (JNum x) = None"
| "node_of_json (JList js) = None"
  by pat_completeness auto
termination
  by (relation "measure size") (auto dest: size_child size_child [OF sym])

definition tree_of_json :: "json \<Rightarrow> attack_tree option" where
  "tree_of_json j = do {
     n \<leftarrow> dict_get ''name'' j \<bind> json_str;
     d \<leftarrow> dict_get ''description'' j \<bind> json_str;
     s \<leftarrow> dict_get ''severity'' j \<bind> json_str;
     v \<leftarrow> dict_get ''version'' j \<bind> json_str;
     r \<leftarrow> dict_get ''root'' j \<bind> node_of_json;
     Some \<lparr>tree_name = n, tree_description = d, root = r, version = v, severity = s\<rparr>
   }"

text \<open>Re-walking the serialised structure: the ids in the order the JSON nests them.\<close>

function json_ids :: "json \<Rightarrow> string list" where
  "json_ids (JDict kvs) =
     (case (map_of kvs ''id'', map_of kvs ''children'') of
        (Some (JStr i), Some (JList cs)) \<Rightarrow> i # concat (map json_ids cs)
      | _ \<Rightarrow> [])"
| "json_ids (JStr s) = []"
| "json_ids (JNum x) = []"
| "json_ids (JList js) = []"
  by pat_completeness auto
termination
  by (relation "measure size") (auto dest: size_child size_child [OF sym])

text \<open>What survives serialisation: every field but \<open>cve_refs\<close> and the two booleans.\<close>

primrec serialised_view :: "attack_node \<Rightarrow> attack_node" where
  "serialised_view (AttackNode i n d t a cs ms cv fr) =
     AttackNode i n d t (a\<lparr>requires_insider := False, requires_physical := False\<rparr>)
       (map serialised_view cs) ms [] fr"

section \<open>Round trip\<close>

lemma node_type_of_value_inv [simp]: "node_type_of_value (node_type_value t) = Some t"
  by (cases t) (simp_all add: node_type_of_value_def)

lemma difficulty_of_name_inv [simp]: "difficulty_of_name (difficulty_name d) = Some d"
  by (cases d) (simp_all add: difficulty_of_name_def)

lemma cost_of_name_inv [simp]: "cost_of_name (cost_name c) = Some c"
  by (cases c) (simp_all add: cost_of_name_def)

lemma detection_risk_of_name_inv [simp]: "detection_risk_of_name (detection_risk_name r) = Some r"
  by (cases r) (simp_all add: detection_risk_of_name_def)

lemma those_json_str_JStr [simp]: "those (map (json_str \<circ> JStr) xs) = Some xs"
  by (induction xs) simp_all

lemma attributes_of_json_inv [simp]:
  "attributes_of_json
     (JDict [(''difficulty'', JStr (difficulty_name (difficulty a))),
             (''cost'', JStr (cost_name (cost a))),
             (''detection_risk'', JStr (detection_risk_name (detection_risk a))),
             (''time_hours'', JNum (time_hours a))]) =
   Some (a\<lparr>requires_insider := False, requires_physical := False\<rparr>)"
  by (cases a) (simp add: attributes_of_json_def)

lemma node_of_json_node_to_dict: "node_of_json (node_to_dict n) = Some (serialised_view n)"
proof (induction n)
  case (AttackNode i nm d t a cs ms cv fr)
  then have "those (map node_of_json (map node_to_dict cs)) = Some (map serialised_view cs)"
    by (simp add: those_map_Some)
  then show ?case by simp
qed

lemma json_ids_node_to_dict: "json_ids (node_to_dict n) = tree_ids n"
proof (induction n)
  case (AttackNode i nm d t a cs ms cv fr)
  then show ?case by (simp add: tree_ids_def map_concat comp_def cong: map_cong)
qed

lemma node_to_dict_serialised_view: "node_to_dict (serialised_view n) = node_to_dict n"
proof (induction n)
  case (AttackNode i nm d t a cs ms cv fr)
  then show ?case by (simp cong: map_cong)
qed

text \<open>C14. Round trip of a tree: \<open>to_dict\<close> read back gives the tree with its name,
  description, severity and version, and its root node by node with every field
  \<open>_node_to_dict\<close> writes (\<open>serialised_view\<close>).\<close>

theorem to_dict_roundtrip:
  "tree_of_json (to_dict t) = Some (t\<lparr>root := serialised_view (root t)\<rparr>)"
  by (cases t) (simp add: tree_of_json_def to_dict_def node_of_json_node_to_dict)

text \<open>C15. Re-walking the serialised tree reproduces the direct traversal: the same ids in
  the same pre-order, hence the same node count, the same id set and the same parent/child
  order.\<close>

theorem to_dict_rewalk:
  "map_option json_ids (dict_get ''root'' (to_dict t)) = Some (tree_ids (root t)) \<and>
   length (tree_ids (root t)) = tree_size (root t)"
  by (simp add: to_dict_def json_ids_node_to_dict tree_ids_def tree_size_def)

text \<open>C16. What the JSON keeps: two nodes are written to the same JSON value exactly when
  they agree on every field \<open>_node_to_dict\<close> writes, in every node of the tree
  (\<open>serialised_view\<close>); so \<open>to_dict\<close> loses \<open>cve_refs\<close> and the two \<open>requires_*\<close> flags and
  nothing else.\<close>

theorem node_to_dict_eq_iff:
  "node_to_dict n = node_to_dict n' \<longleftrightarrow> serialised_view n = serialised_view n'"
proof
  assume "node_to_dict n = node_to_dict n'"
  then have "node_of_json (node_to_dict n) = node_of_json (node_to_dict n')" by simp
  then show "serialised_view n = serialised_view n'" by (simp add: node_of_json_node_to_dict)
next
  assume "serialised_view n = serialised_view n'"
  then show "node_to_dict n = node_to_dict n'" by (metis node_to_dict_serialised_view)
qed

end
