(* ===== verification/Attack_Tree_Data.thy ===== *)
theory Attack_Tree_Data
  imports Mermaid_Export Serialization
begin

text \<open>
  The four tree builders of the source (\<open>build_complete_system_compromise_tree\<close>,
  \<open>build_data_exfiltration_tree\<close>, \<open>build_denial_of_service_tree\<close>,
  \<open>build_internal_network_recon_tree\<close>), translated statement by statement: each
  \<open>AttackNode(...)\<close> assignment is a \<open>let\<close> binding (\<open>mk_node\<close> where only id, name,
  description and type are given), each \<open>x.add_child(y)\<close> rebinds \<open>x\<close> to
  \<open>add_child x y\<close>, and the \<open>return AttackTree(...)\<close> is the body. The local variable
  \<open>root\<close> is called \<open>root0\<close> here, since \<open>root\<close> is the record field. Every child is
  complete before it is attached, so the value semantics of \<open>add_child\<close> gives the
  trees the mutating Python builds; \<open>Heap_Builders\<close> runs the same statements on a heap of
  mutable objects and shows that builders run in sequence do not interfere.
  \<open>generate_all_reports\<close> builds them in this order.
\<close>

definition build_complete_system_compromise_tree :: attack_tree where
  "build_complete_system_compromise_tree =
    (let root0 = mk_node ''G1'' ''Complete System Compromise'' ''Gain full control over the application and underlying system'' OR;
       compromise_frontend = mk_node ''S1'' ''Compromise Frontend'' ''Execute arbitrary code in the frontend context'' OR;
       xss_attack = AttackNode ''A1'' ''XSS via innerHTML'' ''Inject malicious script through map location marker data'' LEAF
           (AttackAttributes D_LOW C_LOW R_MEDIUM 2)
           [] [''Sanitize HTML input'', ''Use React JSX instead of innerHTML'', ''Implement Content Security Policy'']
           [] [''components/ui/map-location-picker.tsx:172-178''];
       supply_chain = AttackNode ''A2'' ''Supply Chain Compromise'' ''Compromise a dependency to run malicious code in frontend'' LEAF
           (AttackAttributes D_HIGH C_HIGH R_LOW 40)
           [] [''Dependency scanning'', ''Software Bill of Materials (SBOM)'', ''Pinned dependencies'']
           [] [''package.json''];
       compromise_frontend = add_child compromise_frontend xss_attack;
       compromise_frontend = add_child compromise_frontend supply_chain;
       backend_access = mk_node ''S2'' ''Direct Backend Access'' ''Invoke Tauri commands without authentication'' AND;
       no_auth = AttackNode ''A3'' ''Exploit No Authentication'' ''Tauri commands have no permission checks (all 120+ exposed)'' LEAF
           (AttackAttributes D_TRIVIAL C_FREE R_NONE 0.5)
           [] [''Implement authentication/authorization layer'', ''Add permission checks in Tauri commands'', ''Role-based access control'']
           [] [''src-tauri/src/lib.rs:101-244''];
       sensitive_commands = AttackNode ''A4'' ''Invoke Sensitive Commands'' ''Call file system, process, or system commands'' LEAF
           (AttackAttributes D_TRIVIAL C_FREE R_LOW 1)
           [] [''Restrict command surface'', ''Sandboxed command execution'', ''Command whitelisting'']
           [] [''src-tauri/src/lib.rs''];
       backend_access = add_child backend_access no_auth;
       backend_access = add_child backend_access sensitive_commands;
       path_traversal = mk_node ''S3'' ''Path Traversal Attack'' ''Access arbitrary files on the system'' OR;
       path_open = AttackNode ''A5'' ''Path Traversal via open_path'' ''Pass arbitrary file paths to open_path command'' LEAF
           (AttackAttributes D_TRIVIAL C_FREE R_LOW 1)
           [] [''Path validation and sanitization'', ''Allowlist of permitted directories'', ''Chroot/jail filesystem access'']
           [] [''src-tauri/src/app_settings.rs:246-289''];
       path_import = AttackNode ''A6'' ''Path Traversal via import/export'' ''User-controlled paths in import_all_data/export_all_data'' LEAF
           (AttackAttributes D_LOW C_FREE R_LOW 2)
           [] [''Validate file paths'', ''Restrict to app data directory'', ''Use secure file dialogs'']
           [] [''src-tauri/src/storage.rs:164-267''];
       path_traversal = add_child path_traversal path_open;
       path_traversal = add_child path_traversal path_import;
       root0 = add_child root0 compromise_frontend;
       root0 = add_child root0 backend_access;
       root0 = add_child root0 path_traversal
     in AttackTree ''Complete System Compromise'' ''Attack paths for gaining full system control'' root0 ''CRITICAL'')"

definition build_data_exfiltration_tree :: attack_tree where
  "build_data_exfiltration_tree =
    (let root0 = mk_node ''G2'' ''Data Exfiltration'' ''Steal sensitive user data from the application'' OR;
       read_files = mk_node ''M1'' ''Read Files Directly'' ''Access stored data files through path traversal'' AND;
       step1 = AttackNode ''A7'' ''Find App Data Directory'' ''Locate application data storage'' LEAF
           (AttackAttributes D_TRIVIAL C_FREE R_NONE 0.5)
           [] []
           [] [''src-tauri/src/storage.rs''];
       step2 = AttackNode ''A8'' ''Read JSON Files'' ''Read plaintext JSON storage files'' LEAF
           (AttackAttributes D_TRIVIAL C_FREE R_LOW 0.5)
           [] [''Encrypt sensitive data at rest'', ''Use system credential storage'', ''File permissions'']
           [] [''src-tauri/src/storage.rs:83-98''];
       read_files = add_child read_files step1;
       read_files = add_child read_files step2;
       extract_storage = mk_node ''M2'' ''Extract from localStorage'' ''Access browser localStorage with sensitive data'' AND;
       step3 = AttackNode ''A9'' ''Execute XSS or DevTools'' ''Gain JavaScript execution context'' LEAF
           (AttackAttributes D_LOW C_LOW R_MEDIUM 2)
           [] [''Content Security Policy'', ''XSS prevention'', ''DevTools protection in production'']
           [] [];
       step4 = AttackNode ''A10'' ''Read localStorage'' ''Access unencrypted data in localStorage'' LEAF
           (AttackAttributes D_TRIVIAL C_FREE R_NONE 0.1)
           [] [''Encrypt data before storage'', ''Use secure credential manager'', ''Minimal data in localStorage'']
           [] [''lib/storage/web-storage.ts''];
       extract_storage = add_child extract_storage step3;
       extract_storage = add_child extract_storage step4;
       ssrf = mk_node ''M3'' ''SSRF to Internal Services'' ''Use application to probe internal network'' AND;
       step5 = AttackNode ''A11'' ''Inject Internal URLs'' ''Pass internal URLs to prefetch_url or cache fetch'' LEAF
           (AttackAttributes D_LOW C_FREE R_MEDIUM 2)
           [] [''URL whitelist validation'', ''Block internal/private IPs'', ''Network segmentation'']
           [] [''src-tauri/src/unified_cache.rs:332-366'', ''lib/offline/unified-cache.ts:372-425''];
       step6 = AttackNode ''A12'' ''Exfiltrate Responses'' ''Capture responses from internal services'' LEAF
           (AttackAttributes D_LOW C_FREE R_LOW 1)
           [] [''Response validation'', ''Data loss prevention'', ''Network monitoring'']
           [] [];
       ssrf = add_child ssrf step5;
       ssrf = add_child ssrf step6;
       root0 = add_child root0 read_files;
       root0 = add_child root0 extract_storage;
       root0 = add_child root0 ssrf
     in AttackTree ''Data Exfiltration'' ''Attack paths for stealing sensitive data'' root0 ''CRITICAL'')"

definition build_denial_of_service_tree :: attack_tree where
  "build_denial_of_service_tree =
    (let root0 = mk_node ''G3'' ''Denial of Service'' ''Make the application unavailable or unresponsive'' OR;
       resource_exhaustion = mk_node ''M4'' ''Resource Exhaustion'' ''Exhaust memory or disk space with oversized inputs'' OR;
       attack1 = AttackNode ''A13'' ''Oversized JSON Deserialization'' ''Send massive JSON payload to deserialize'' LEAF
           (AttackAttributes D_TRIVIAL C_FREE R_HIGH 0.5)
           [] [''JSON size limits'', ''Streaming parsers'', ''Memory quotas'']
           [] [''src-tauri/src/storage.rs:92''];
       attack2 = AttackNode ''A14'' ''Cache Flooding'' ''Fill disk with unlimited cache entries'' LEAF
           (AttackAttributes D_TRIVIAL C_FREE R_MEDIUM 1)
           [] [''Cache size limits'', ''LRU eviction'', ''Disk space monitoring'']
           [] [''src-tauri/src/unified_cache.rs:159-200''];
       attack3 = AttackNode ''A15'' ''Massive CSV Import'' ''Import enormous CSV file to exhaust resources'' LEAF
           (AttackAttributes D_TRIVIAL C_FREE R_MEDIUM 1)
           [] [''Row count limits'', ''Field size limits'', ''Streaming CSV parser'']
           [] [''src-tauri/src/target_io.rs:175-242''];
       resource_exhaustion = add_child resource_exhaustion attack1;
       resource_exhaustion = add_child resource_exhaustion attack2;
       resource_exhaustion = add_child resource_exhaustion attack3;
       api_abuse = AttackNode ''M5'' ''API Abuse'' ''Flood APIs with requests without rate limiting'' LEAF
           (AttackAttributes D_TRIVIAL C_LOW R_HIGH 0.5)
           [] [''Rate limiting on all Tauri commands'', ''Request throttling'', ''Circuit breakers'']
           [] [''src-tauri/src/lib.rs''];
       root0 = add_child root0 resource_exhaustion;
       root0 = add_child root0 api_abuse
     in AttackTree ''Denial of Service'' ''Attack paths for making the application unavailable'' root0 ''HIGH'')"

definition build_internal_network_recon_tree :: attack_tree where
  "build_internal_network_recon_tree =
    (let root0 = mk_node ''G4'' ''Internal Network Reconnaissance'' ''Use application to probe internal network and services'' OR;
       ssrf_method = mk_node ''M6'' ''SSRF via URL Injection'' ''Inject internal URLs into prefetch_url or cache'' AND;
       step1 = AttackNode ''A16'' ''Enumerate Internal IPs'' ''Scan internal IP ranges (192.168.x.x, 10.x.x.x)'' LEAF
           (AttackAttributes D_LOW C_FREE R_MEDIUM 4)
           [] [''Block private IP ranges'', ''URL allowlist only'', ''Network egress filtering'']
           [] [''src-tauri/src/unified_cache.rs:332-366'', ''lib/offline/unified-cache.ts:372-425''];
       step2 = AttackNode ''A17'' ''Port Scan via URLs'' ''Try different ports to find open services'' LEAF
           (AttackAttributes D_LOW C_FREE R_MEDIUM 4)
           [] [''Port restrictions'', ''Protocol whitelisting (HTTPS only)'', ''URL validation'']
           [] [];
       step3 = AttackNode ''A18'' ''Access Cloud Metadata'' ''Try cloud metadata endpoints (169.254.169.254)'' LEAF
           (AttackAttributes D_LOW C_FREE R_HIGH 1)
           [] [''Block link-local addresses'', ''Cloud metadata endpoint blocking'', ''Network isolation'']
           [] [];
       ssrf_method = add_child ssrf_method step1;
       ssrf_method = add_child ssrf_method step2;
       ssrf_method = add_child ssrf_method step3;
       root0 = add_child root0 ssrf_method
     in AttackTree ''Internal Network Reconnaissance'' ''Attack paths for scanning internal network via SSRF'' root0 ''HIGH'')"

definition all_trees :: "attack_tree list" where
  "all_trees =
     [build_complete_system_compromise_tree, build_data_exfiltration_tree,
      build_denial_of_service_tree, build_internal_network_recon_tree]"

lemmas builder_defs = build_complete_system_compromise_tree_def build_data_exfiltration_tree_def
  build_denial_of_service_tree_def build_internal_network_recon_tree_def all_trees_def


end
