(* ===== verification/Report.thy ===== *)
theory Report
  imports Attack_Tree_Data
begin

text \<open>
  \<open>generate_all_reports\<close> and the \<open>__main__\<close> block, without their file writes and
  prints: the JSON report object (\<open>report\<close>), the Mermaid section of each tree that the
  markdown document embeds (\<open>mermaid_section\<close>), the three counts of the console summary
  (\<open>summary_counts\<close>), and the leaves of the easiest path that \<open>__main__\<close> prints for
  each tree (\<open>easiest_path_leaves\<close>). The markdown document around the diagrams is
  \<open>Report_Text\<close>; the prints and the file writes are \<open>Console\<close>.
\<close>

definition report :: "attack_tree list \<Rightarrow> json" where
  "report trees =
     JDict [(''title'', JStr ''Skymap Application Security Attack Trees''),
            (''generated'', JStr ''2025-12-26''),
            (''trees'', JList (map to_dict trees))]"

definition mermaid_section :: "attack_tree \<Rightarrow> string" where
  "mermaid_section t =
     ''## '' @ tree_name t @ ''\<newline>\<newline>Severity: '' @ severity t @
     ''\<newline>\<newline>```mermaid\<newline>'' @ fst (export (init_exporter t)) @ ''\<newline>```''"

definition mermaid_diagrams :: "attack_tree list \<Rightarrow> string list" where
  "mermaid_diagrams trees = map mermaid_section trees"

definition summary_counts :: "attack_tree list \<Rightarrow> nat \<times> nat \<times> nat" where
  "summary_counts trees =
     (length trees,
      sum_list (map (\<lambda>t. length (get_all_leaf_attacks t)) trees),
      sum_list (map (\<lambda>t. length (get_unmitigated_attacks t)) trees))"

definition easiest_path_leaves :: "attack_tree \<Rightarrow> attack_node list" where
  "easiest_path_leaves t = [n \<leftarrow> find_easiest_path t. node_type n = LEAF]"


end
