(* ===== verification/Report_Text.thy ===== *)
theory Report_Text
  imports Report
begin

text \<open>
  The markdown document \<open>generate_all_reports\<close> writes (\<open>md_report\<close>, source lines
  826--1016): an f-string whose only substitution is \<open>chr(10).join(mermaid_diagrams)\<close>;
  everything else is fixed text, kept here line by line as the source has it
  (\<open>md_head_lines\<close>, \<open>md_tail_lines\<close>). The document is a byte string in its UTF-8
  encoding; its one non-ASCII character, the arrow U+2192 of the first "Easiest Path" line,
  is \<open>right_arrow\<close>.

  The lemmas read the document the way a reader does, line by line (\<open>py_split_nl\<close>): its
  lines are the fixed head, the lines of each tree's section and the fixed tail
  (\<open>md_report_lines\<close>); every line of a diagram starts with four spaces, the header of its
  section or a fence (\<open>render_indented\<close>, \<open>mermaid_section_split\<close>), so no diagram line can
  be taken for a heading or an "Easiest Path" line. On this rests the theorem that the
  narrative (the analysis headings and the named easiest paths) is the same whatever trees
  are passed.
\<close>

section \<open>The document\<close>

definition right_arrow :: string where
  "right_arrow = [CHR 0xE2, CHR 0x86, CHR 0x92]"

text \<open>The markdown text before the embedded diagrams (lines 826--843).\<close>
definition md_head_lines :: "string list" where
  \<open>md_head_lines = [''# Skymap Application Security Attack Trees'',
     '''',
     ''**Generated:** 2025-12-26'',
     ''**Based on:** Security Vulnerability Report (llmdoc/agent/security-vulnerability-report.md)'',
     '''',
     ''## Executive Summary'',
     '''',
     ''This document presents attack tree analysis for the Skymap React + Tauri starmap application.'',
     ''Attack trees systematically map attacker goals to the paths they can take to achieve them.'',
     '''',
     ''**Critical Findings:**'',
     ''- **4 major attack scenarios** identified'',
     ''- **19 unique attack paths** documented'',
     ''- **Most paths are TRIVIAL to LOW difficulty** due to missing security controls'',
     ''- **Highest risk:** Complete system compromise via unrestricted Tauri command access'',
     '''',
     ''## Attack Scenarios'',
     '''']\<close>

text \<open>The markdown text after the embedded diagrams: the detailed analysis, the remediation plan, the conclusion and the references (lines 845--1015).\<close>
definition md_tail_lines :: "string list" where
  \<open>md_tail_lines = ['''',
     ''## Detailed Analysis'',
     '''',
     ''### 1. Complete System Compromise (CRITICAL)'',
     '''',
     (''**Easiest Path:** Exploit No Authentication '' @ right_arrow @ '' Invoke Sensitive Commands''),
     ''- **Difficulty:** TRIVIAL'',
     ''- **Cost:** FREE'',
     ''- **Detection Risk:** NONE to LOW'',
     ''- **Time:** ~1.5 hours'',
     '''',
     ''**Impact:** Full filesystem access, remote code execution, complete system control'',
     '''',
     ''**Root Causes:**'',
     ''- All 120+ Tauri commands exposed without permission checks'',
     ''- Path traversal vulnerabilities in file operations'',
     ''- No authentication or authorization layer'',
     '''',
     ''**Recommended Mitigations:**'',
     ''1. Implement authentication/authorization layer'',
     ''2. Add permission checks to all Tauri commands'',
     ''3. Validate and sanitize all file paths'',
     ''4. Restrict command surface area'',
     ''5. Implement sandboxing for sensitive operations'',
     '''',
     ''### 2. Data Exfiltration (CRITICAL)'',
     '''',
     ''**Easiest Path:** Read Files Directly'',
     ''- **Difficulty:** TRIVIAL'',
     ''- **Cost:** FREE'',
     ''- **Detection Risk:** LOW'',
     ''- **Time:** ~1 hour'',
     '''',
     ''**Impact:** User PII exposure, location history, equipment data, observation logs'',
     '''',
     ''**Root Causes:**'',
     ''- Plaintext data storage (JSON files, localStorage)'',
     ''- No encryption at rest'',
     ''- Path traversal allows arbitrary file read'',
     ''- XSS vulnerabilities enable localStorage theft'',
     '''',
     ''**Recommended Mitigations:**'',
     ''1. Encrypt sensitive data at rest'',
     ''2. Use system credential storage for secrets'',
     ''3. Implement Content Security Policy'',
     ''4. Validate all file paths'',
     ''5. Add URL allowlist for SSRF prevention'',
     '''',
     ''### 3. Denial of Service (HIGH)'',
     '''',
     ''**Easiest Path:** Oversized JSON Deserialization'',
     ''- **Difficulty:** TRIVIAL'',
     ''- **Cost:** FREE'',
     ''- **Detection Risk:** HIGH'',
     ''- **Time:** ~30 minutes'',
     '''',
     ''**Impact:** Application crash, system unresponsiveness, disk exhaustion'',
     '''',
     ''**Root Causes:**'',
     ''- No size limits on input data'',
     ''- Unlimited cache growth'',
     ''- No rate limiting on commands'',
     ''- Unbounded CSV parsing'',
     '''',
     ''**Recommended Mitigations:**'',
     ''1. Implement size limits on all inputs'',
     ''2. Add cache size quotas with LRU eviction'',
     ''3. Rate limit all Tauri commands'',
     ''4. Use streaming parsers for large data'',
     ''5. Add resource monitoring'',
     '''',
     ''### 4. Internal Network Reconnaissance (HIGH)'',
     '''',
     ''**Easiest Path:** SSRF via URL Injection'',
     ''- **Difficulty:** LOW'',
     ''- **Cost:** FREE'',
     ''- **Detection Risk:** MEDIUM'',
     ''- **Time:** ~4-8 hours'',
     '''',
     ''**Impact:** Internal network mapping, cloud metadata theft, lateral movement'',
     '''',
     ''**Root Causes:**'',
     ''- Arbitrary URL fetching without validation'',
     ''- No IP address restrictions'',
     ''- Missing network egress filtering'',
     ''- No protocol restrictions'',
     '''',
     ''**Recommended Mitigations:**'',
     ''1. Implement URL allowlist validation'',
     ''2. Block private IP ranges (RFC 1918)'',
     ''3. Restrict to HTTPS only'',
     ''4. Add network egress filtering'',
     ''5. Block cloud metadata endpoints'',
     '''',
     ''## Prioritized Remediation Plan'',
     '''',
     ''### Phase 1: Critical (Immediate Action Required)'',
     '''',
     ''1. **Add Authentication/Authorization** (src-tauri/src/lib.rs)'',
     ''   - Implement permission checks on all Tauri commands'',
     ''   - Add role-based access control'',
     ''   - Audit command surface area'',
     '''',
     ''2. **Fix Path Traversal** (app_settings.rs, storage.rs)'',
     ''   - Validate and sanitize all file paths'',
     ''   - Implement directory allowlist'',
     ''   - Use secure file dialogs only'',
     '''',
     ''3. **Enable Content Security Policy** (tauri.conf.json)'',
     ''   - Remove `"csp": null`'',
     ''   - Implement strict CSP policy'',
     ''   - Add XSS protections'',
     '''',
     ''4. **Encrypt Data at Rest** (storage.rs, web-storage.ts)'',
     ''   - Use system credential manager'',
     ''   - Encrypt JSON files'',
     ''   - Minimize localStorage usage'',
     '''',
     ''### Phase 2: High (Within 1 Week)'',
     '''',
     ''5. **URL Validation** (unified_cache.rs)'',
     ''   - Implement URL allowlist'',
     ''   - Block internal/private IPs'',
     ''   - Restrict to HTTPS only'',
     '''',
     ''6. **Input Size Limits** (all Tauri commands)'',
     ''   - Add maximum size limits'',
     ''   - Implement streaming parsers'',
     ''   - Add resource quotas'',
     '''',
     ''7. **Rate Limiting** (lib.rs command handlers)'',
     ''   - Implement rate limiting on all commands'',
     ''   - Add throttling mechanisms'',
     ''   - Circuit breakers for abuse'',
     '''',
     ''### Phase 3: Medium (Within 1 Month)'',
     '''',
     ''8. **Logging and Monitoring**'',
     ''   - Add comprehensive audit logs'',
     ''   - Security event monitoring'',
     ''   - Alerting on suspicious activities'',
     '''',
     ''9. **XSS Prevention** (map-location-picker.tsx)'',
     ''   - Remove innerHTML usage'',
     ''   - Use React JSX'',
     ''   - Sanitize all HTML inputs'',
     '''',
     ''10. **Dependency Management**'',
     ''    - Implement dependency scanning'',
     ''    - Create SBOM'',
     ''    - Regular security updates'',
     '''',
     ''## Conclusion'',
     '''',
     ''The Skymap application has **critical security vulnerabilities** that make system compromise,'',
     ''data exfiltration, and denial of service attacks trivial to execute. The primary issues are:'',
     '''',
     ''1. **No security boundary** between frontend and backend'',
     ''2. **Missing input validation** across all attack surfaces'',
     ''3. **Plaintext data storage** without encryption'',
     ''4. **No authentication or authorization** on sensitive operations'',
     '''',
     ''**Immediate action is required** on Phase 1 items to reduce the attack surface from "trivial'',
     ''exploitation" to "secured application."'',
     '''',
     ''## References'',
     '''',
     ''- Security Vulnerability Report: `llmdoc/agent/security-vulnerability-report.md`'',
     ''- MITRE ATT&CK: https://attack.mitre.org/'',
     ''- OWASP Top 10: https://owasp.org/www-project-top-ten/'',
     ''- Tauri Security: https://tauri.app/v1/guides/security/'']\<close>


definition md_report :: "attack_tree list \<Rightarrow> string" where
  "md_report trees =
     py_join ''\<newline>'' md_head_lines @ ''\<newline>'' @ py_join ''\<newline>'' (mermaid_diagrams trees) @ ''\<newline>'' @
     py_join ''\<newline>'' md_tail_lines @ ''\<newline>''"

definition narrative_easiest :: "string \<Rightarrow> string list" where
  "narrative_easiest md =
     map (drop (length ''**Easiest Path:** '')) [l \<leftarrow> py_split_nl md. starts_with ''**Easiest Path:** '' l]"

definition narrative_headings :: "string \<Rightarrow> string list" where
  "narrative_headings md = [l \<leftarrow> py_split_nl md. starts_with ''### '' l]"


definition indented :: "string \<Rightarrow> bool" where
  "indented l \<longleftrightarrow> CHR 0x0A \<notin> set l \<and> take 4 l = ''    ''"

definition nl_free_tree :: "attack_tree \<Rightarrow> bool" where
  "nl_free_tree t \<longleftrightarrow>
     CHR 0x0A \<notin> set (tree_name t) \<and> CHR 0x0A \<notin> set (severity t) \<and>
     list_all (\<lambda>x. CHR 0x0A \<notin> set (name x)) (preorder (root t))"

definition narrative_prefixes :: "string list" where
  "narrative_prefixes = [''**Easiest Path:** '', ''### '']"


section \<open>The lines of the document\<close>

lemma render_indented:
  "(\<forall>x\<in>set (preorder n). CHR 0x0A \<notin> set (name x) \<and> CHR 0x0A \<notin> set (the (m (node_id x)))) \<Longrightarrow>
   (\<forall>p. pid = Some p \<longrightarrow> CHR 0x0A \<notin> set p) \<Longrightarrow> list_all indented (map snd (render m n pid))"
  "(\<forall>c\<in>set cs. \<forall>x\<in>set (preorder c). CHR 0x0A \<notin> set (name x) \<and> CHR 0x0A \<notin> set (the (m (node_id x)))) \<Longrightarrow>
   CHR 0x0A \<notin> set nid \<Longrightarrow> list_all indented (map snd (render_children m cs nid))"
proof (induction m n pid and m cs nid rule: render_render_children.induct)
  case (1 m i n d t a cs ms cv fr pid)
  have "CHR 0x0A \<notin> set (get_leaf_style x)" for x
    by (simp add: get_leaf_style_def leaf_colors_def Let_def split: difficulty.splits option.splits)
  with 1 show ?case
    by (auto simp: Let_def node_block_def indented_def style_line_def node_shape_def edge_line_def sq_def
             split: option.splits)
next
  case (2 m nid)
  then show ?case by simp
next
  case (3 m child cs nid)
  then show ?case by simp
qed

lemma md_lines_no_nl:
  "list_all (\<lambda>l. CHR 0x0A \<notin> set l) md_head_lines" "md_head_lines \<noteq> []"
  "list_all (\<lambda>l. CHR 0x0A \<notin> set l) md_tail_lines" "md_tail_lines \<noteq> []"
  by code_simp+

lemma md_report_lines:
  "py_split_nl (md_report ts) =
     md_head_lines @ py_split_nl (py_join ''\<newline>'' (mermaid_diagrams ts)) @ md_tail_lines @ [[]]"
proof -
  have "md_report ts = py_join ''\<newline>'' (md_head_lines @ [py_join ''\<newline>'' (mermaid_diagrams ts)] @ md_tail_lines @ [[]])"
    using md_lines_no_nl by (simp add: md_report_def py_join_append py_join_Cons)
  then show ?thesis
    using md_lines_no_nl by (simp add: py_split_nl_join concat_map_split_no_nl)
qed

lemma export_ids_no_nl:
  assumes "x \<in> set (preorder (root t))"
  shows "CHR 0x0A \<notin> set (the (node_ids (snd (export (init_exporter t))) (node_id x)))"
proof -
  let ?m = "node_ids (snd (export (init_exporter t)))"
  have "node_id x \<in> dom ?m" using assms export_init_ids(1) [of t] by (simp add: tree_ids_def)
  then obtain v where v: "?m (node_id x) = Some v" by blast
  then have "v \<in> ran ?m" by (auto intro: ranI)
  then obtain k where "v = ''N'' @ nat_str k" using export_init_ids(2) [of t] by (auto simp: ids_ok_def)
  with v show ?thesis by simp
qed

lemma export_render_indented:
  "nl_free_tree t \<Longrightarrow> list_all indented (map snd (render (node_ids (snd (export (init_exporter t)))) (root t) None))"
  by (rule render_indented(1)) (auto simp: nl_free_tree_def list_all_iff export_ids_no_nl)

lemma mermaid_section_split:
  "py_split_nl (mermaid_section t) =
     [''## '' @ tree_name t, [], ''Severity: '' @ severity t, [], ''```mermaid'', ''flowchart TD''] @
     concat (map py_split_nl (map snd (render (node_ids (snd (export (init_exporter t)))) (root t) None))) @
     concat (map py_split_nl legend) @ [''```'']"
  if "nl_free_tree t"
proof -
  have "fst (export (init_exporter t)) =
        py_join ''\<newline>'' (''flowchart TD'' # map snd (render (node_ids (snd (export (init_exporter t)))) (root t) None) @ legend)"
    by (simp add: export_fst export_snd_sel(2) init_exporter_def)
  moreover have "legend \<noteq> []" by (simp add: legend_def)
  ultimately show ?thesis
    using that by (simp add: mermaid_section_def py_split_nl_join py_split_nl_append_nl py_split_nl_no_nl nl_free_tree_def)
qed

lemma indented_not_narrative: "indented l \<Longrightarrow> P \<in> set narrative_prefixes \<Longrightarrow> \<not> starts_with P l"
  using starts_with_take [of P l 4] by (auto simp: indented_def narrative_prefixes_def)

lemma section_narrative_free:
  assumes "nl_free_tree t" "P \<in> set narrative_prefixes"
  shows "filter (starts_with P) (py_split_nl (mermaid_section t)) = []"
proof -
  let ?R = "map snd (render (node_ids (snd (export (init_exporter t)))) (root t) None)"
  have ind: "list_all indented ?R" using assms(1) by (rule export_render_indented)
  then have "concat (map py_split_nl ?R) = ?R"
    by (intro concat_map_split_no_nl) (auto simp: list_all_iff indented_def)
  moreover have "filter (starts_with P) ?R = []"
    using ind assms(2) indented_not_narrative by (auto simp: list_all_iff filter_empty_conv)
  moreover have "\<forall>P\<in>set narrative_prefixes. filter (starts_with P) (concat (map py_split_nl legend)) = []"
    by code_simp
  then have "filter (starts_with P) (concat (map py_split_nl legend)) = []"
    using assms(2) by blast
  ultimately show ?thesis
    using assms by (auto simp: mermaid_section_split narrative_prefixes_def starts_with_def)
qed

lemma md_narrative_lines:
  assumes "list_all nl_free_tree ts" "P \<in> set narrative_prefixes"
  shows "filter (starts_with P) (py_split_nl (md_report ts)) = filter (starts_with P) (md_head_lines @ md_tail_lines)"
proof -
  have "filter (starts_with P) (py_split_nl (py_join ''\<newline>'' (mermaid_diagrams ts))) = []"
  proof (cases "ts = []")
    case True
    then show ?thesis using assms(2) by (auto simp: mermaid_diagrams_def narrative_prefixes_def starts_with_def)
  next
    case False
    then show ?thesis
      using assms section_narrative_free by (simp add: mermaid_diagrams_def py_split_nl_join filter_concat list_all_iff)
  qed
  moreover have "\<not> starts_with P []" using assms(2) by (auto simp: narrative_prefixes_def starts_with_def)
  ultimately show ?thesis by (simp add: md_report_lines)
qed

lemma all_trees_nl_free: "list_all nl_free_tree all_trees"
  by code_simp

lemma md_easiest_const:
  "map (drop (length ''**Easiest Path:** ''))
     [l \<leftarrow> md_head_lines @ md_tail_lines. starts_with ''**Easiest Path:** '' l] =
   [''Exploit No Authentication '' @ right_arrow @ '' Invoke Sensitive Commands'',
    ''Read Files Directly'', ''Oversized JSON Deserialization'', ''SSRF via URL Injection'']"
  by code_simp

lemma md_headings_const:
  "[l \<leftarrow> md_head_lines @ md_tail_lines. starts_with ''### '' l] =
   [''### 1. Complete System Compromise (CRITICAL)'', ''### 2. Data Exfiltration (CRITICAL)'',
    ''### 3. Denial of Service (HIGH)'', ''### 4. Internal Network Reconnaissance (HIGH)'',
            ''### Phase 1: Critical (Immediate Action Required)'', ''### Phase 2: High (Within 1 Week)'',
            ''### Phase 3: Medium (Within 1 Month)'']"
  by code_simp

lemma md_narrative_eqs:
  assumes "list_all nl_free_tree ts"
  shows "narrative_easiest (md_report ts) =
           [''Exploit No Authentication '' @ right_arrow @ '' Invoke Sensitive Commands'',
            ''Read Files Directly'', ''Oversized JSON Deserialization'', ''SSRF via URL Injection'']" (is "_ = ?e")
        "narrative_headings (md_report ts) =
           [''### 1. Complete System Compromise (CRITICAL)'', ''### 2. Data Exfiltration (CRITICAL)'',
            ''### 3. Denial of Service (HIGH)'', ''### 4. Internal Network Reconnaissance (HIGH)'',
            ''### Phase 1: Critical (Immediate Action Required)'', ''### Phase 2: High (Within 1 Week)'',
            ''### Phase 3: Medium (Within 1 Month)'']" (is "_ = ?h")
proof -
  have "''**Easiest Path:** '' \<in> set narrative_prefixes" "''### '' \<in> set narrative_prefixes"
    by (simp_all add: narrative_prefixes_def)
  then show "narrative_easiest (md_report ts) = ?e" "narrative_headings (md_report ts) = ?h"
    by (simp_all only: narrative_easiest_def narrative_headings_def md_narrative_lines [OF assms]
                       md_easiest_const md_headings_const)
qed

text \<open>C31. The narrative of the markdown report is fixed text: for any list of trees
  whose names and severities contain no line break, the document's "Easiest Path" lines and
  its level-3 headings are the same, whatever the trees and whatever \<open>find_easiest_path\<close>
  computes for them; only the embedded diagrams depend on the trees.\<close>
theorem md_narrative_fixed:
  assumes "list_all nl_free_tree ts"
  shows "narrative_easiest (md_report ts) =
           [''Exploit No Authentication '' @ right_arrow @ '' Invoke Sensitive Commands'',
            ''Read Files Directly'', ''Oversized JSON Deserialization'', ''SSRF via URL Injection''] \<and>
         narrative_headings (md_report ts) =
           [''### 1. Complete System Compromise (CRITICAL)'', ''### 2. Data Exfiltration (CRITICAL)'',
            ''### 3. Denial of Service (HIGH)'', ''### 4. Internal Network Reconnaissance (HIGH)'',
            ''### Phase 1: Critical (Immediate Action Required)'', ''### Phase 2: High (Within 1 Week)'',
            ''### Phase 3: Medium (Within 1 Month)'']"
  using md_narrative_eqs [OF assms] by (rule conjI)

theorem md_narrative_fixed_witness:
  "list_all nl_free_tree all_trees \<and>
   narrative_easiest (md_report all_trees) =
           [''Exploit No Authentication '' @ right_arrow @ '' Invoke Sensitive Commands'',
            ''Read Files Directly'', ''Oversized JSON Deserialization'', ''SSRF via URL Injection'']"
  using md_narrative_fixed [OF all_trees_nl_free] all_trees_nl_free by blast

end
