(* ===== verification/Console.thy ===== *)
theory Console
  imports Report_Text
begin

text \<open>
  What a run of the script does beyond computing values: the \<open>print\<close> calls of
  \<open>generate_all_reports\<close> and of the \<open>__main__\<close> block (\<open>summary_print_lines\<close>,
  \<open>main_print_lines\<close>, \<open>tree_print_lines\<close>, \<open>leaf_print_lines\<close>), with Python's formatting
  of the float \<open>time_hours\<close> (\<open>py_float_repr\<close>), and the sequence of effects of a run
  (\<open>generate_all_reports\<close>, \<open>run_main\<close>): two file writes and the prints, cut short by the
  \<open>OSError\<close> of a file that cannot be opened. The JSON text that \<open>json.dump\<close> produces
  from the report value is library code and is not modelled; the effect records the value.
\<close>

section \<open>Definitions\<close>

text \<open>The two non-ASCII characters the program prints, in their UTF-8 encoding: \<open>check_mark\<close>
  is U+2713 (the mark before "Generated" in the two first prints); the arrow U+2192 is \<open>right_arrow\<close>.\<close>

definition check_mark :: string where
  "check_mark = [CHR 0xE2, CHR 0x9C, CHR 0x93]"

text \<open>Python's \<open>str(float)\<close>, the shortest decimal that reads back as the same float, for
  the values it prints in positional notation: \<open>decimal_scale\<close> finds the fewest fractional
  digits (at least one, at most 15) that represent the value exactly, \<open>repr_unsigned\<close>
  writes the digits with a point. This is Python's output for a value that has at most 15
  digits after the point and at most 15 significant digits and lies between \<open>1e-4\<close> and
  \<open>1e16\<close> (outside that range Python uses exponent notation); every \<open>time_hours\<close> of the program (0.1, 0.5,
  1.0, 2.0, 4.0, 40.0 and the default 8.0) is one.\<close>

definition decimal_integral :: "real \<Rightarrow> nat \<Rightarrow> bool" where
  "decimal_integral x k \<longleftrightarrow> of_int \<lfloor>x * 10 ^ k\<rfloor> = x * 10 ^ k"

function decimal_scale :: "real \<Rightarrow> nat \<Rightarrow> nat" where
  "decimal_scale x k = (if 15 \<le> k \<or> decimal_integral x k then k else decimal_scale x (Suc k))"
  by pat_completeness auto
termination
  by (relation "measure (\<lambda>(x, k). 15 - k)") auto

declare decimal_scale.simps [simp del]

definition repr_unsigned :: "real \<Rightarrow> string" where
  "repr_unsigned x =
     (let k = decimal_scale x 1;
          ds = nat_str (nat \<lfloor>x * 10 ^ k\<rfloor>);
          ds' = replicate (Suc k - length ds) (CHR ''0'') @ ds
      in take (length ds' - k) ds' @ ''.'' @ drop (length ds' - k) ds')"

definition py_float_repr :: "real \<Rightarrow> string" where
  "py_float_repr x = (if x < 0 then ''-'' @ repr_unsigned (- x) else repr_unsigned x)"

text \<open>The prints of \<open>generate_all_reports\<close> (lines 1021--1026) and of \<open>__main__\<close>
  (lines 1033--1050), one string per \<open>print\<close> call.\<close>

definition summary_print_lines :: "attack_tree list \<Rightarrow> string list" where
  "summary_print_lines trees =
     (let (n_trees, n_leaves, n_unmitigated) = summary_counts trees in
      [check_mark @ '' Generated attack-trees-report.json'',
       check_mark @ '' Generated attack-trees-analysis.md'',
       ''\<newline>Summary:'',
       ''  - '' @ nat_str n_trees @ '' attack scenarios analyzed'',
       ''  - '' @ nat_str n_leaves @ '' total attack paths identified'',
       ''  - '' @ nat_str n_unmitigated @ '' unmitigated attacks found''])"

definition leaf_print_lines :: "attack_node \<Rightarrow> string list" where
  "leaf_print_lines node =
     [''  '' @ right_arrow @ '' '' @ name node,
      ''    Difficulty: '' @ difficulty_name (difficulty (attributes node)),
      ''    Cost: '' @ cost_name (cost (attributes node)),
      ''    Detection: '' @ detection_risk_name (detection_risk (attributes node)),
      ''    Time: '' @ py_float_repr (time_hours (attributes node)) @ ''h''] @
     (if file_refs node \<noteq> [] then [''    Files: '' @ py_join '', '' (file_refs node)] else [])"

definition tree_print_lines :: "attack_tree \<Rightarrow> string list" where
  "tree_print_lines t =
     (''\<newline>'' @ tree_name t @ '' ('' @ severity t @ ''):'') #
     concat (map (\<lambda>node. if node_type node = LEAF then leaf_print_lines node else []) (find_easiest_path t))"

definition main_print_lines :: "attack_tree list \<Rightarrow> string list" where
  "main_print_lines trees =
     [''\<newline>'' @ replicate 80 (CHR ''=''), ''EASIEST ATTACK PATHS (By Difficulty)'', replicate 80 (CHR ''='')] @
     concat (map tree_print_lines trees)"

text \<open>The effects of a run in the order they happen: a file opened for writing and
  written (the JSON report through \<open>json.dump\<close>, the markdown through \<open>f.write\<close>), or a
  line printed. Whether \<open>open(path, "w")\<close> succeeds is a property of the environment, the
  argument \<open>can_open\<close>; a failing \<open>open\<close> raises \<open>OSError\<close>, which nothing catches.\<close>

datatype effect = Write_JSON string json | Write_Text string string | Print string

datatype io_error = OSError string

definition report_json_path :: string where
  "report_json_path = ''d:/Project/skymap-test/docs/security/attack-trees-report.json''"

definition report_md_path :: string where
  "report_md_path = ''d:/Project/skymap-test/docs/security/attack-trees-analysis.md''"

definition generate_all_reports :: "(string \<Rightarrow> bool) \<Rightarrow> effect list \<times> (io_error + attack_tree list)" where
  "generate_all_reports can_open =
     (let trees = all_trees; rep = report trees in
      if \<not> can_open report_json_path then ([], Inl (OSError report_json_path))
      else
        (let md = md_report trees in
         if \<not> can_open report_md_path then ([Write_JSON report_json_path rep], Inl (OSError report_md_path))
         else ([Write_JSON report_json_path rep, Write_Text report_md_path md] @ map Print (summary_print_lines trees),
               Inr trees)))"

definition run_main :: "(string \<Rightarrow> bool) \<Rightarrow> effect list \<times> io_error option" where
  "run_main can_open =
     (case generate_all_reports can_open of
        (es, Inl e) \<Rightarrow> (es, Some e)
      | (es, Inr trees) \<Rightarrow> (es @ map Print (main_print_lines trees), None))"

section \<open>Runs and console output\<close>

text \<open>C32. Order of effects and error paths of a run of the script: the JSON report is
  written first, then the markdown, then the summary and the easiest paths are printed; if
  the JSON file cannot be opened nothing is written or printed, and if the markdown file
  cannot be opened only the JSON report has been written; either way the run ends with the
  \<open>OSError\<close> of the path that failed and prints nothing.\<close>

theorem run_main_effects:
  "run_main w =
     (if w report_json_path \<and> w report_md_path
      then ([Write_JSON report_json_path (report all_trees), Write_Text report_md_path (md_report all_trees)] @
            map Print (summary_print_lines all_trees @ main_print_lines all_trees), None)
      else ([Write_JSON report_json_path (report all_trees). w report_json_path],
            Some (OSError (if w report_json_path then report_md_path else report_json_path))))"
  by (simp add: run_main_def generate_all_reports_def Let_def)

end
