(* ===== verification/Json_Schema.thy ===== *)
theory Json_Schema
  imports Serialization
begin

text \<open>
  The shape of the JSON that \<open>AttackTree._node_to_dict\<close> writes, as a typing judgement
  on JSON values: \<open>node_schema\<close> accepts an object with exactly the keys \<open>id\<close>, \<open>name\<close>,
  \<open>description\<close>, \<open>type\<close>, \<open>attributes\<close>, \<open>mitigations\<close>, \<open>file_refs\<close>,
  \<open>children\<close> in this order, string values, a node type among \<open>or\<close>/\<open>and\<close>/\<open>leaf\<close>, an
  attributes object whose three enum fields are member names and whose \<open>time_hours\<close> is a
  number, string arrays, and children that are again nodes. The schema is executable
  (\<^theory_text>\<open>code_pred\<close>), and it describes the serialiser exactly: a JSON value
  satisfies it precisely when it is the serialisation of some node.
\<close>

section \<open>The schema\<close>

definition difficulty_names :: "string list" where
  "difficulty_names = map difficulty_name [D_TRIVIAL, D_LOW, D_MEDIUM, D_HIGH, D_EXPERT]"

definition cost_names :: "string list" where
  "cost_names = map cost_name [C_FREE, C_LOW, C_MEDIUM, C_HIGH, C_VERY_HIGH]"

definition detection_risk_names :: "string list" where
  "detection_risk_names = map detection_risk_name [R_NONE, R_LOW, R_MEDIUM, R_HIGH, R_CERTAIN]"

text \<open>The attributes object \<open>_node_to_dict\<close> writes for an attribute record.\<close>

abbreviation attrs_json :: "attack_attributes \<Rightarrow> json" where
  "attrs_json a \<equiv> JDict [(''difficulty'', JStr (difficulty_name (difficulty a))),
                         (''cost'', JStr (cost_name (cost a))),
                         (''detection_risk'', JStr (detection_risk_name (detection_risk a))),
                         (''time_hours'', JNum (time_hours a))]"

inductive attrs_schema :: "json \<Rightarrow> bool" where
  "d \<in> set difficulty_names \<Longrightarrow> c \<in> set cost_names \<Longrightarrow> r \<in> set detection_risk_names \<Longrightarrow>
   attrs_schema (JDict [(''difficulty'', JStr d), (''cost'', JStr c),
                        (''detection_risk'', JStr r), (''time_hours'', JNum h)])"

inductive str_array :: "json list \<Rightarrow> bool" where
  "str_array []"
| "str_array js \<Longrightarrow> str_array (JStr s # js)"

inductive node_schema :: "json \<Rightarrow> bool" where
  "ty \<in> set [''or'', ''and'', ''leaf''] \<Longrightarrow> attrs_schema a \<Longrightarrow> str_array ms \<Longrightarrow> str_array fr \<Longrightarrow>
   list_all node_schema cs \<Longrightarrow>
   node_schema (JDict [(''id'', JStr i), (''name'', JStr n), (''description'', JStr d),
                       (''type'', JStr ty), (''attributes'', a), (''mitigations'', JList ms),
                       (''file_refs'', JList fr), (''children'', JList cs)])"

code_pred attrs_schema .
code_pred str_array .
code_pred node_schema .

section \<open>The schema describes the serialiser\<close>

lemma difficulty_names_range: "set difficulty_names = range difficulty_name"
proof -
  have "set [D_TRIVIAL, D_LOW, D_MEDIUM, D_HIGH, D_EXPERT] = UNIV" using difficulty.exhaust by auto
  then show ?thesis unfolding difficulty_names_def by (metis list.set_map)
qed

lemma cost_names_range: "set cost_names = range cost_name"
proof -
  have "set [C_FREE, C_LOW, C_MEDIUM, C_HIGH, C_VERY_HIGH] = UNIV" using cost.exhaust by auto
  then show ?thesis unfolding cost_names_def by (metis list.set_map)
qed

lemma detection_risk_names_range: "set detection_risk_names = range detection_risk_name"
proof -
  have "set [R_NONE, R_LOW, R_MEDIUM, R_HIGH, R_CERTAIN] = UNIV" using detection_risk.exhaust by auto
  then show ?thesis unfolding detection_risk_names_def by (metis list.set_map)
qed

lemma str_array_iff: "str_array js \<longleftrightarrow> (\<exists>ss. js = map JStr ss)"
proof
  show "str_array js \<Longrightarrow> \<exists>ss. js = map JStr ss"
    by (induction rule: str_array.induct) (auto intro: exI [of _ "_ # _"])
  show "\<exists>ss. js = map JStr ss \<Longrightarrow> str_array js"
  proof (elim exE)
    fix ss show "js = map JStr ss \<Longrightarrow> str_array js"
      by (induction ss arbitrary: js) (auto intro: str_array.intros)
  qed
qed

lemma attrs_schema_iff: "attrs_schema j \<longleftrightarrow> (\<exists>a. j = attrs_json a)"
proof
  assume "attrs_schema j"
  then show "\<exists>a. j = attrs_json a"
  proof cases
    case (1 d c r h)
    from 1 obtain dd where "d = difficulty_name dd" by (auto simp: difficulty_names_range)
    moreover from 1 obtain cc where "c = cost_name cc" by (auto simp: cost_names_range)
    moreover from 1 obtain rr where "r = detection_risk_name rr" by (auto simp: detection_risk_names_range)
    ultimately show ?thesis using 1
      by (intro exI [of _ "\<lparr>difficulty = dd, cost = cc, detection_risk = rr, time_hours = h,
                            requires_insider = False, requires_physical = False\<rparr>"]) simp
  qed
next
  assume "\<exists>a. j = attrs_json a"
  then obtain a where j: "j = attrs_json a" by blast
  show "attrs_schema j" unfolding j
    by (rule attrs_schema.intros) (simp_all add: difficulty_names_range cost_names_range detection_risk_names_range)
qed

lemma node_type_value_set: "node_type_value t \<in> set [''or'', ''and'', ''leaf'']"
  by (cases t) simp_all

lemma str_array_map_JStr: "str_array (map JStr ss)"
  by (induction ss) (simp_all add: str_array.intros)

lemma attrs_schema_attrs_json: "attrs_schema (attrs_json a)"
  using attrs_schema_iff by blast

lemma node_schema_node_to_dict: "node_schema (node_to_dict n)"
proof (induction n)
  case (AttackNode i nm d t a cs ms cv fr)
  then have cs: "list_all node_schema (map node_to_dict cs)" by (simp add: list_all_iff)
  show ?case
    by (simp only: node_to_dict.simps)
       (rule node_schema.intros [OF node_type_value_set attrs_schema_attrs_json
                                    str_array_map_JStr str_array_map_JStr cs])
qed

lemma node_schema_image: "node_schema j \<Longrightarrow> \<exists>n. j = node_to_dict n"
proof (induction rule: node_schema.induct)
  case (1 ty a ms fr cs i n d)
  obtain t where t: "ty = node_type_value t"
    using 1(1) by (auto intro: node_type_value.simps [symmetric])
  obtain aa where aa: "a = attrs_json aa"
    using 1(2) attrs_schema_iff by blast
  obtain ss where ss: "ms = map JStr ss" using 1(3) str_array_iff by blast
  obtain fs where fs: "fr = map JStr fs" using 1(4) str_array_iff by blast
  have "\<forall>c\<in>set cs. \<exists>n. c = node_to_dict n" using 1(5) by (simp add: list_all_iff)
  then obtain ns where ns: "cs = map node_to_dict ns" using ex_map_conv [of cs node_to_dict] by blast
  show ?case
    by (rule exI [of _ "AttackNode i n d t aa ns ss [] fs"]) (simp add: t aa ss fs ns)
qed

text \<open>C17. Type of the serialised nodes: a JSON value has the shape of a serialised node
  (\<open>node_schema\<close>: the eight keys in order, typed values, enum names, nested children)
  exactly when it is \<open>_node_to_dict\<close> of some node.\<close>

theorem node_schema_iff: "node_schema j \<longleftrightarrow> (\<exists>n. j = node_to_dict n)"
  using node_schema_image node_schema_node_to_dict by blast

end
