(* ===== verification/Path_Bounds.thy ===== *)
theory Path_Bounds
  imports Path_Search "HOL-Library.Sublist"
begin

text \<open>
  Where the path of \<open>_find_path\<close> lies in the tree: it is a subsequence (\<open>subseq\<close>) of
  the pre-order traversal, which bounds its length by the size of the tree and its score by
  the largest ordinal (5, \<open>Difficulty.EXPERT\<close>) times the number of leaves.
\<close>

section \<open>Subsequences of the traversal\<close>

lemma subseq_concat_map:
  "(\<And>c. c \<in> set cs \<Longrightarrow> subseq (f c) (g c)) \<Longrightarrow> subseq (concat (map f cs)) (concat (map g cs))"
  by (induction cs) (simp_all add: list_emb_append_mono)

lemma subseq_concat_member: "c \<in> set cs \<Longrightarrow> subseq (g c) (concat (map g cs))"
proof -
  assume "c \<in> set cs"
  then obtain xs ys where "cs = xs @ c # ys" by (auto simp: in_set_conv_decomp)
  then show ?thesis by (simp add: sublist_imp_subseq sublist_appendI)
qed

lemma find_path_subseq: "subseq (find_path n m) (preorder n)"
proof (induction n)
  case (AttackNode i nm d t a cs ms cv fr)
  let ?n = "AttackNode i nm d t a cs ms cv fr"
  have IH: "subseq (find_path c m) (preorder c)" if "c \<in> set cs" for c
    using AttackNode that by simp
  consider "t = LEAF \<or> cs = []" | "t = OR" "cs \<noteq> []" | "t = AND" "cs \<noteq> []"
    by (cases t) auto
  then show ?case
  proof cases
    case 1
    then have "find_path ?n m = [?n]" by (auto simp: Let_def)
    then show ?thesis by simp
  next
    case 2
    then obtain k where k: "k < length cs" "find_path ?n m = ?n # find_path (cs ! k) m"
      using find_path_or_first_min [of ?n m] by auto
    then have "subseq (find_path (cs ! k) m) (concat (map preorder cs))"
      using IH [of "cs ! k"] subseq_concat_member [of "cs ! k" cs preorder] subseq_order.trans by auto
    with k show ?thesis by simp
  next
    case 3
    then show ?thesis
      using find_path_and [of ?n m] subseq_concat_map [of cs "\<lambda>c. find_path c m" preorder] IH by simp
  qed
qed

lemma subseq_filter_mono: "subseq xs ys \<Longrightarrow> subseq (filter P xs) (filter P ys)"
  by (induction rule: list_emb.induct) auto

section \<open>Bounds\<close>

lemma metric_value_le: "metric_value m n \<le> 5"
  by (cases "difficulty (attributes n)"; cases "cost (attributes n)"; cases "detection_risk (attributes n)")
     (simp_all add: metric_value_def)

lemma path_score_le_leaves: "path_score p m \<le> 5 * length [x \<leftarrow> p. node_type x = LEAF]"
  by (induction p) (auto simp: leaf_weight_def is_leaf_def intro: add_mono metric_value_le)

text \<open>C30. Bounds of the search: the path \<open>_find_path\<close> returns is a subsequence of the
  pre-order traversal of the node (its nodes appear there in the same order), so it is no
  longer than the tree, and its score for any metric is at most 5 per LEAF of the tree.\<close>

theorem find_path_bounds:
  "subseq (find_path n m) (preorder n) \<and> length (find_path n m) \<le> tree_size n \<and>
   path_score (find_path n m) m \<le> 5 * length [x \<leftarrow> preorder n. node_type x = LEAF]"
proof -
  have s: "subseq (find_path n m) (preorder n)" by (rule find_path_subseq)
  have "length [x \<leftarrow> find_path n m. node_type x = LEAF] \<le> length [x \<leftarrow> preorder n. node_type x = LEAF]"
    by (rule list_emb_length [OF subseq_filter_mono [OF s]])
  then show ?thesis
    using s list_emb_length [OF s] path_score_le_leaves [of "find_path n m" m]
    by (simp add: tree_size_def)
qed
end
