(* ===== verification/Object_Heap.thy ===== *)
theory Object_Heap
  imports Path_Search
begin

text \<open>
  The Python objects behind the value model. \<open>AttackNode\<close> is a mutable dataclass and
  \<open>add_child\<close> appends to the list of the object it is called on, so a tree is a graph of
  references in the interpreter's heap. Here the heap is a list of \<open>node_obj\<close> records,
  a reference is an index into it, \<open>alloc_obj\<close> is the dataclass constructor (a fresh object
  at the end of the heap, its list fields fresh) and \<open>obj_add_child\<close> is \<open>add_child\<close>
  (lines 70--71) as an update of the parent object in place.

  A builder function (\<open>build_*_tree\<close>, lines 247--796) is a sequence of statements: an
  assignment of a new \<open>AttackNode\<close> to a local variable, or \<open>parent.add_child(child)\<close>;
  \<open>exec_stmt\<close> runs one on the locals and the heap, \<open>run_builder\<close> runs a body and returns the
  \<open>AttackTree\<close> record (lines 74--80) over the root variable. The bodies of the four
  builders of the program are in \<open>Heap_Builders\<close>.

  \<open>AttackTree._find_path\<close> (lines 94--122) runs on the heap (\<open>find_path_obj\<close>) with one unit
  of fuel per nested call: Python stops a recursion at its recursion limit (1000 frames by
  default) with \<open>RecursionError\<close>, which is the value \<open>None\<close>. \<open>abs_node\<close> reads the tree a
  reference denotes, if its reachable part unfolds within the fuel.

  The lemmas show that the search on the heap returns and computes the value-level
  \<open>find_path\<close> of the tree the heap denotes (so the value model of the other theories is the
  program's behaviour), that a cycle of non-leaf objects makes it fail for every recursion
  limit, and that a builder body only appends fresh objects, so builders run one after
  the other never disturb the objects of an earlier tree.
\<close>

section \<open>Objects, the heap and the builder statements\<close>

text \<open>The fields of an \<open>AttackNode\<close> object (lines 57--68), children as references.\<close>

record node_obj =
  obj_id :: string
  obj_name :: string
  obj_description :: string
  obj_type :: node_type
  obj_attributes :: attack_attributes
  obj_children :: "nat list"
  obj_mitigations :: "string list"
  obj_cve_refs :: "string list"
  obj_file_refs :: "string list"

type_synonym heap = "node_obj list"

record obj_tree =
  ot_name :: string
  ot_description :: string
  ot_root :: nat
  ot_version :: string
  ot_severity :: string

text \<open>\<open>AttackNode(id=..., name=..., description=..., node_type=..., attributes=...,
  mitigations=..., file_refs=...)\<close>: \<open>children\<close> and \<open>cve_refs\<close> start as fresh empty lists.\<close>

definition alloc_obj ::
  "string \<Rightarrow> string \<Rightarrow> string \<Rightarrow> node_type \<Rightarrow> attack_attributes \<Rightarrow> string list \<Rightarrow> string list \<Rightarrow>
   heap \<Rightarrow> nat \<times> heap" where
  "alloc_obj i n d t a ms fr h =
     (length h, h @ [\<lparr>obj_id = i, obj_name = n, obj_description = d, obj_type = t, obj_attributes = a,
                     obj_children = [], obj_mitigations = ms, obj_cve_refs = [], obj_file_refs = fr\<rparr>])"

definition obj_add_child :: "nat \<Rightarrow> nat \<Rightarrow> heap \<Rightarrow> heap" where
  "obj_add_child p c h = h[p := (h ! p)\<lparr>obj_children := obj_children (h ! p) @ [c]\<rparr>]"

text \<open>One statement of a builder body: \<open>v = AttackNode(...)\<close> with the constructor's
  arguments, or \<open>p.add_child(c)\<close> on two local variables.\<close>

datatype stmt =
    New string string string string node_type attack_attributes "string list" "string list"
  | Add_Child string string

fun exec_stmt :: "(string \<rightharpoonup> nat) \<times> heap \<Rightarrow> stmt \<Rightarrow> (string \<rightharpoonup> nat) \<times> heap" where
  "exec_stmt (env, h) (New v i n d t a ms fr) =
     (case alloc_obj i n d t a ms fr h of (r, h') \<Rightarrow> (env(v \<mapsto> r), h'))"
| "exec_stmt (env, h) (Add_Child p c) = (env, obj_add_child (the (env p)) (the (env c)) h)"

definition run_builder ::
  "stmt list \<Rightarrow> string \<Rightarrow> string \<Rightarrow> string \<Rightarrow> string \<Rightarrow> heap \<Rightarrow> obj_tree \<times> heap" where
  "run_builder body n d root_var sev h =
     (case foldl exec_stmt (Map.empty, h) body of
        (env, h') \<Rightarrow> (\<lparr>ot_name = n, ot_description = d, ot_root = the (env root_var),
                       ot_version = ''1.0'', ot_severity = sev\<rparr>, h'))"

definition shift_env :: "nat \<Rightarrow> (string \<rightharpoonup> nat) \<Rightarrow> string \<rightharpoonup> nat" where
  "shift_env d env = map_option ((+) d) \<circ> env"

definition shift_obj :: "nat \<Rightarrow> node_obj \<Rightarrow> node_obj" where
  "shift_obj d ob = ob\<lparr>obj_children := map ((+) d) (obj_children ob)\<rparr>"

text \<open>A builder's result placed after an existing heap: every reference moves up by the
  heap's length.\<close>

definition relocate :: "heap \<Rightarrow> obj_tree \<times> heap \<Rightarrow> obj_tree \<times> heap" where
  "relocate h0 oth =
     (case oth of (ot, h) \<Rightarrow>
        (ot\<lparr>ot_root := length h0 + ot_root ot\<rparr>, h0 @ map (shift_obj (length h0)) h))"

text \<open>A body is well scoped when every \<open>add_child\<close> names variables assigned before it
  (Python would raise \<open>NameError\<close> otherwise).\<close>

fun scoped :: "string list \<Rightarrow> stmt list \<Rightarrow> bool" where
  "scoped vs [] = True"
| "scoped vs (New v i n d t a ms fr # b) = scoped (v # vs) b"
| "scoped vs (Add_Child p c # b) = (p \<in> set vs \<and> c \<in> set vs \<and> scoped vs b)"

fun new_vars :: "stmt list \<Rightarrow> string list" where
  "new_vars [] = []"
| "new_vars (New v i n d t a ms fr # b) = v # new_vars b"
| "new_vars (Add_Child p c # b) = new_vars b"

section \<open>The tree a reference denotes and the search on the heap\<close>

fun abs_node :: "nat \<Rightarrow> heap \<Rightarrow> nat \<Rightarrow> attack_node option" where
  "abs_node 0 h r = None"
| "abs_node (Suc k) h r =
     (if r < length h then
        (let ob = h ! r in
         map_option (\<lambda>cs. AttackNode (obj_id ob) (obj_name ob) (obj_description ob) (obj_type ob)
                              (obj_attributes ob) cs (obj_mitigations ob) (obj_cve_refs ob) (obj_file_refs ob))
           (those (map (abs_node k h) (obj_children ob))))
      else None)"

definition obj_shallow :: "heap \<Rightarrow> nat \<Rightarrow> attack_node" where
  "obj_shallow h r =
     (let ob = h ! r in AttackNode (obj_id ob) (obj_name ob) (obj_description ob) (obj_type ob)
                         (obj_attributes ob) [] (obj_mitigations ob) (obj_cve_refs ob) (obj_file_refs ob))"

definition path_score_obj :: "heap \<Rightarrow> nat list \<Rightarrow> string \<Rightarrow> nat" where
  "path_score_obj h p m = path_score (map (obj_shallow h) p) m"

definition represents :: "nat \<Rightarrow> heap \<Rightarrow> nat list \<Rightarrow> attack_node list \<Rightarrow> bool" where
  "represents k h ps p \<longleftrightarrow> map (abs_node k h) ps = map Some p"

fun find_path_obj :: "nat \<Rightarrow> heap \<Rightarrow> nat \<Rightarrow> string \<Rightarrow> nat list option"
and or_loop_obj :: "nat \<Rightarrow> heap \<Rightarrow> nat list \<Rightarrow> string \<Rightarrow> enat \<Rightarrow> nat list option \<Rightarrow> nat list option option"
and and_loop_obj :: "nat \<Rightarrow> heap \<Rightarrow> nat list \<Rightarrow> string \<Rightarrow> nat list \<Rightarrow> nat list option" where
  "find_path_obj 0 h r m = None"
| "find_path_obj (Suc k) h r m =
     (if r < length h then
        (let ob = h ! r in
         if obj_type ob = LEAF then Some [r]
         else if obj_children ob = [] then Some [r]
         else if obj_type ob = OR then
           (case or_loop_obj k h (obj_children ob) m \<infinity> None of
              None \<Rightarrow> None
            | Some None \<Rightarrow> Some [r]
            | Some (Some p) \<Rightarrow> Some (r # p))
         else and_loop_obj k h (obj_children ob) m [r])
      else None)"
| "or_loop_obj k h [] m best bp = Some bp"
| "or_loop_obj k h (c # cs) m best bp =
     (case find_path_obj k h c m of
        None \<Rightarrow> None
      | Some cp \<Rightarrow>
          (let s = path_score_obj h cp m in
           if enat s < best then or_loop_obj k h cs m (enat s) (Some cp)
           else or_loop_obj k h cs m best bp))"
| "and_loop_obj k h [] m p = Some p"
| "and_loop_obj k h (c # cs) m p =
     (case find_path_obj k h c m of
        None \<Rightarrow> None
      | Some cp \<Rightarrow> and_loop_obj k h cs m (p @ cp))"

section \<open>Example heaps\<close>

text \<open>The first worked example of the specification built the way the program builds its
  trees: an OR root and two leaves, attached by \<open>add_child\<close>.\<close>

definition ex_or_body :: "stmt list" where
  "ex_or_body =
     [New ''root'' ''root'' ''root'' '''' OR default_attributes [] [],
      New ''a'' ''A'' ''A'' '''' LEAF (AttackAttributes D_TRIVIAL C_MEDIUM R_MEDIUM 8) [] [],
      New ''b'' ''B'' ''B'' '''' LEAF (AttackAttributes D_HIGH C_MEDIUM R_MEDIUM 8) [] [],
      Add_Child ''root'' ''a'', Add_Child ''root'' ''b'']"

definition ex_or_heap :: heap where
  "ex_or_heap = snd (run_builder ex_or_body ''OR example'' '''' ''root'' ''Medium'' [])"

text \<open>\<open>g = AttackNode(id="G", name="G", description="", node_type=NodeType.OR);
  g.add_child(g)\<close>: a node that is its own child.\<close>

definition cyc_heap :: heap where
  "cyc_heap = (case alloc_obj ''G'' ''G'' '''' OR default_attributes [] [] [] of (r, h) \<Rightarrow> obj_add_child r r h)"

section \<open>Lemmas\<close>

lemma those_map_eq_Some: "those (map f xs) = Some ys \<longleftrightarrow> map f xs = map Some ys"
  by (induction xs arbitrary: ys) (auto split: option.splits simp: Cons_eq_map_conv)

lemma map_Some_mono:
  "map f xs = map Some ys \<Longrightarrow> (\<And>x y. x \<in> set xs \<Longrightarrow> f x = Some y \<Longrightarrow> g x = Some y) \<Longrightarrow> map g xs = map Some ys"
  by (induction xs arbitrary: ys) (auto simp: Cons_eq_map_conv)

lemma abs_node_SucE:
  assumes "abs_node (Suc k) h r = Some t"
  obtains tcs where "r < length h" "map (abs_node k h) (obj_children (h ! r)) = map Some tcs"
    "t = AttackNode (obj_id (h ! r)) (obj_name (h ! r)) (obj_description (h ! r)) (obj_type (h ! r))
           (obj_attributes (h ! r)) tcs (obj_mitigations (h ! r)) (obj_cve_refs (h ! r)) (obj_file_refs (h ! r))"
  using assms by (auto simp: Let_def those_map_eq_Some split: if_splits)

lemma abs_node_mono: "abs_node k h r = Some t \<Longrightarrow> abs_node (Suc k) h r = Some t"
proof (induction k arbitrary: r t)
  case 0
  then show ?case by simp
next
  case (Suc k)
  from Suc.prems obtain tcs where r: "r < length h"
    and cs: "map (abs_node k h) (obj_children (h ! r)) = map Some tcs"
    and t: "t = AttackNode (obj_id (h ! r)) (obj_name (h ! r)) (obj_description (h ! r)) (obj_type (h ! r))
                  (obj_attributes (h ! r)) tcs (obj_mitigations (h ! r)) (obj_cve_refs (h ! r)) (obj_file_refs (h ! r))"
    by (rule abs_node_SucE)
  have "map (abs_node (Suc k) h) (obj_children (h ! r)) = map Some tcs"
    using cs Suc.IH by (rule map_Some_mono)
  with r t show ?case by (simp add: Let_def those_map_eq_Some)
qed

lemma abs_node_type_attrs:
  "abs_node k h q = Some x \<Longrightarrow> node_type x = obj_type (h ! q) \<and> attributes x = obj_attributes (h ! q)"
  by (cases k) (auto simp: Let_def split: if_splits)

lemma path_score_obj_rel:
  "map (abs_node k h) ps = map Some p \<Longrightarrow> path_score_obj h ps m = path_score p m"
proof (induction ps arbitrary: p)
  case Nil
  then show ?case by (simp add: path_score_obj_def)
next
  case (Cons q ps)
  then obtain x p' where p: "p = x # p'" "abs_node k h q = Some x" "map (abs_node k h) ps = map Some p'"
    by (auto simp: Cons_eq_map_conv)
  then have "leaf_weight m (obj_shallow h q) = leaf_weight m x"
    using abs_node_type_attrs [OF p(2)]
    by (simp add: leaf_weight_def is_leaf_def metric_value_def obj_shallow_def Let_def)
  with Cons.IH [OF p(3)] p(1) show ?case by (simp add: path_score_obj_def)
qed


lemma represents_mono: "represents k h ps p \<Longrightarrow> represents (Suc k) h ps p"
  unfolding represents_def by (erule map_Some_mono) (rule abs_node_mono)

lemma or_loop_obj_rel:
  assumes "\<And>c tc. c \<in> set cs \<Longrightarrow> abs_node k h c = Some tc \<Longrightarrow>
             \<exists>ps. find_path_obj k h c m = Some ps \<and> represents k h ps (find_path tc m)"
    and "map (abs_node k h) cs = map Some tcs"
    and "rel_option (represents k h) bp' bp"
  shows "\<exists>res. or_loop_obj k h cs m best bp' = Some res \<and> rel_option (represents k h) res (or_loop tcs m best bp)"
  using assms
proof (induction cs arbitrary: tcs best bp' bp)
  case Nil
  then show ?case by simp
next
  case (Cons c cs)
  then obtain tc tcs' where tcs: "tcs = tc # tcs'" "abs_node k h c = Some tc" "map (abs_node k h) cs = map Some tcs'"
    by (auto simp: Cons_eq_map_conv)
  then obtain ps where ps: "find_path_obj k h c m = Some ps" "represents k h ps (find_path tc m)"
    using Cons.prems(1) by auto
  then have sc: "path_score_obj h ps m = path_score (find_path tc m) m"
    by (simp add: represents_def path_score_obj_rel)
  have IH: "\<exists>res. or_loop_obj k h cs m b q' = Some res \<and> rel_option (represents k h) res (or_loop tcs' m b q)"
    if "rel_option (represents k h) q' q" for b q' q
    using Cons.IH [OF _ tcs(3) that] Cons.prems(1) by auto
  show ?case
    using IH [of "Some ps" "Some (find_path tc m)"] IH [of bp' bp] ps(2) Cons.prems(3)
    by (simp add: tcs(1) ps(1) sc Let_def)
qed

lemma and_loop_obj_rel:
  assumes "\<And>c tc. c \<in> set cs \<Longrightarrow> abs_node k h c = Some tc \<Longrightarrow>
             \<exists>ps. find_path_obj k h c m = Some ps \<and> represents k h ps (find_path tc m)"
    and "map (abs_node k h) cs = map Some tcs"
    and "represents (Suc k) h p' p"
  shows "\<exists>res. and_loop_obj k h cs m p' = Some res \<and> represents (Suc k) h res (and_loop tcs m p)"
  using assms
proof (induction cs arbitrary: tcs p' p)
  case Nil
  then show ?case by simp
next
  case (Cons c cs)
  then obtain tc tcs' where tcs: "tcs = tc # tcs'" "abs_node k h c = Some tc" "map (abs_node k h) cs = map Some tcs'"
    by (auto simp: Cons_eq_map_conv)
  then obtain ps where ps: "find_path_obj k h c m = Some ps" "represents k h ps (find_path tc m)"
    using Cons.prems(1) by auto
  have "represents (Suc k) h (p' @ ps) (p @ find_path tc m)"
    using Cons.prems(3) represents_mono [OF ps(2)] by (simp add: represents_def)
  then show ?case
    using Cons.IH [OF _ tcs(3)] Cons.prems(1) by (simp add: tcs(1) ps(1))
qed

lemma shift_obj_fields [simp]:
  "obj_children (shift_obj d ob) = map ((+) d) (obj_children ob)"
  "obj_id (shift_obj d ob) = obj_id ob" "obj_name (shift_obj d ob) = obj_name ob"
  "obj_description (shift_obj d ob) = obj_description ob" "obj_type (shift_obj d ob) = obj_type ob"
  "obj_attributes (shift_obj d ob) = obj_attributes ob" "obj_mitigations (shift_obj d ob) = obj_mitigations ob"
  "obj_cve_refs (shift_obj d ob) = obj_cve_refs ob" "obj_file_refs (shift_obj d ob) = obj_file_refs ob"
  by (simp_all add: shift_obj_def)

lemma shift_env_upd: "(shift_env d env)(v \<mapsto> d + r) = shift_env d (env(v \<mapsto> r))"
  by (rule ext) (simp add: shift_env_def)

lemma shift_env_apply: "shift_env d env v = map_option ((+) d) (env v)"
  by (simp add: shift_env_def)

lemma obj_add_child_shift:
  "obj_add_child (length h0 + p) (length h0 + c) (h0 @ map (shift_obj (length h0)) h) =
   h0 @ map (shift_obj (length h0)) (obj_add_child p c h)"
  by (cases "p < length h") (simp_all add: obj_add_child_def list_update_append nth_append shift_obj_def map_update list_update_beyond)

lemma exec_shift:
  assumes "\<forall>v\<in>set vs. env v \<noteq> None" "scoped vs body"
  shows "foldl exec_stmt (shift_env (length h0) env, h0 @ map (shift_obj (length h0)) h) body =
         (case foldl exec_stmt (env, h) body of
            (env', h') \<Rightarrow> (shift_env (length h0) env', h0 @ map (shift_obj (length h0)) h'))"
  using assms
proof (induction body arbitrary: vs env h)
  case Nil
  then show ?case by simp
next
  case (Cons st body)
  show ?case
  proof (cases st)
    case (New v i n d t a ms fr)
    have "exec_stmt (shift_env (length h0) env, h0 @ map (shift_obj (length h0)) h) st =
      (shift_env (length h0) (env(v \<mapsto> length h)), h0 @ map (shift_obj (length h0)) (snd (alloc_obj i n d t a ms fr h)))"
      using New by (simp add: alloc_obj_def shift_env_upd [symmetric] shift_obj_def)
    moreover have "exec_stmt (env, h) st = (env(v \<mapsto> length h), snd (alloc_obj i n d t a ms fr h))"
      using New by (simp add: alloc_obj_def)
    moreover have "scoped (v # vs) body" "\<forall>x\<in>set (v # vs). (env(v \<mapsto> length h)) x \<noteq> None"
      using Cons.prems New by auto
    ultimately show ?thesis
      by (simp only: foldl_Cons Cons.IH)
  next
    case (Add_Child p c)
    with Cons.prems obtain rp rc where "env p = Some rp" "env c = Some rc" by fastforce
    then have "the (shift_env (length h0) env p) = length h0 + rp" "the (shift_env (length h0) env c) = length h0 + rc"
      "the (env p) = rp" "the (env c) = rc"
      by (simp_all add: shift_env_apply)
    moreover have "scoped vs body" using Cons.prems Add_Child by simp
    ultimately show ?thesis
      using Cons.prems(1) Add_Child by (simp only: foldl_Cons exec_stmt.simps obj_add_child_shift Cons.IH)
  qed
qed

lemma exec_binds:
  "v \<in> set (new_vars body) \<or> env v \<noteq> None \<Longrightarrow> fst (foldl exec_stmt (env, h) body) v \<noteq> None"
proof (induction body arbitrary: env h)
  case (Cons st body)
  then show ?case
    by (cases st) (auto simp: alloc_obj_def)
qed simp

lemma run_builder_relocate:
  assumes "scoped [] body" "rv \<in> set (new_vars body)"
  shows "run_builder body n d rv s h0 = relocate h0 (run_builder body n d rv s [])"
proof -
  have e: "shift_env (length h0) Map.empty = Map.empty" by (rule ext) (simp add: shift_env_def)
  obtain env' h' where st: "foldl exec_stmt (Map.empty, []) body = (env', h')" by fastforce
  have "foldl exec_stmt (Map.empty, h0) body = (shift_env (length h0) env', h0 @ map (shift_obj (length h0)) h')"
    using exec_shift [of "[]" Map.empty body h0 "[]"] assms(1) st by (simp add: e)
  moreover have "env' rv \<noteq> None" using exec_binds [of rv body Map.empty "[]"] assms(2) st by simp
  ultimately show ?thesis using st by (auto simp: run_builder_def relocate_def shift_env_apply)
qed

lemma abs_node_shift:
  "abs_node k (h0 @ map (shift_obj (length h0)) h) (length h0 + r) = abs_node k h r"
proof (induction k arbitrary: r)
  case (Suc k)
  have f: "abs_node k (h0 @ map (shift_obj (length h0)) h) \<circ> (+) (length h0) = abs_node k h"
    by (rule ext) (simp add: Suc.IH)
  show ?case by (simp add: nth_append Let_def f)
qed simp

lemma abs_node_append: "abs_node k h r = Some t \<Longrightarrow> abs_node k (h @ h2) r = Some t"
proof (induction k arbitrary: r t)
  case (Suc k)
  from Suc.prems obtain tcs where r: "r < length h" and cs: "map (abs_node k h) (obj_children (h ! r)) = map Some tcs"
    and t: "t = AttackNode (obj_id (h ! r)) (obj_name (h ! r)) (obj_description (h ! r)) (obj_type (h ! r))
           (obj_attributes (h ! r)) tcs (obj_mitigations (h ! r)) (obj_cve_refs (h ! r)) (obj_file_refs (h ! r))"
    by (rule abs_node_SucE)
  have "map (abs_node k (h @ h2)) (obj_children (h ! r)) = map Some tcs"
    by (rule map_Some_mono [OF cs]) (rule Suc.IH)
  with r t show ?case by (simp add: nth_append Let_def those_map_Some)
qed simp

lemma or_loop_obj_None:
  "c \<in> set cs \<Longrightarrow> find_path_obj k h c m = None \<Longrightarrow> or_loop_obj k h cs m b bp = None"
proof (induction cs arbitrary: b bp)
  case (Cons c' cs)
  then show ?case by (cases "find_path_obj k h c' m") (auto simp: Let_def)
qed simp

lemma and_loop_obj_None:
  "c \<in> set cs \<Longrightarrow> find_path_obj k h c m = None \<Longrightarrow> and_loop_obj k h cs m p = None"
proof (induction cs arbitrary: p)
  case (Cons c' cs)
  then show ?case by (cases "find_path_obj k h c' m") auto
qed simp

section \<open>Properties\<close>

text \<open>C19. Refinement of the search on the heap: if the objects reachable from \<open>r\<close> denote
  the tree \<open>t\<close> within \<open>k\<close> levels, \<open>_find_path\<close> on the heap returns within recursion depth
  \<open>k\<close> (no \<open>RecursionError\<close>) and its list of references denotes, object by object, the
  path \<open>find_path t m\<close> of the value model.\<close>

theorem find_path_obj_refines:
  "abs_node k h r = Some t \<Longrightarrow> \<exists>ps. find_path_obj k h r m = Some ps \<and> represents k h ps (find_path t m)"
proof (induction k arbitrary: r t)
  case 0
  then show ?case by simp
next
  case (Suc k)
  from Suc.prems obtain tcs where r: "r < length h"
    and cs: "map (abs_node k h) (obj_children (h ! r)) = map Some tcs"
    and t: "t = AttackNode (obj_id (h ! r)) (obj_name (h ! r)) (obj_description (h ! r)) (obj_type (h ! r))
                  (obj_attributes (h ! r)) tcs (obj_mitigations (h ! r)) (obj_cve_refs (h ! r)) (obj_file_refs (h ! r))"
    by (rule abs_node_SucE)
  have self: "represents (Suc k) h [r] [t]" using Suc.prems by (simp add: represents_def)
  have IH: "\<And>c tc. c \<in> set (obj_children (h ! r)) \<Longrightarrow> abs_node k h c = Some tc \<Longrightarrow>
              \<exists>ps. find_path_obj k h c m = Some ps \<and> represents k h ps (find_path tc m)"
    using Suc.IH by blast
  consider "obj_type (h ! r) = LEAF" | "obj_type (h ! r) \<noteq> LEAF" "obj_children (h ! r) = []"
    | "obj_type (h ! r) = OR" "obj_children (h ! r) \<noteq> []"
    | "obj_type (h ! r) = AND" "obj_children (h ! r) \<noteq> []"
    by (cases "obj_type (h ! r)") auto
  then show ?case
  proof cases
    case 1
    with r t self show ?thesis by (simp add: Let_def)
  next
    case 2
    with cs have "tcs = []" by simp
    with 2 r t self show ?thesis by (simp add: Let_def)
  next
    case 3
    with cs have "tcs \<noteq> []" by auto
    obtain res where res: "or_loop_obj k h (obj_children (h ! r)) m \<infinity> None = Some res"
      "rel_option (represents k h) res (or_loop tcs m \<infinity> None)"
      using or_loop_obj_rel [OF IH cs, of None None \<infinity>] by auto
    show ?thesis
    proof (cases res)
      case None
      with res(2) have "or_loop tcs m \<infinity> None = None" by simp
      with 3 r t self res(1) None \<open>tcs \<noteq> []\<close> show ?thesis by (simp add: Let_def)
    next
      case (Some ps)
      with res(2) obtain p where p: "or_loop tcs m \<infinity> None = Some p" "represents k h ps p"
        by (cases "or_loop tcs m \<infinity> None") auto
      have "represents (Suc k) h (r # ps) (t # p)"
        using self represents_mono [OF p(2)] by (simp add: represents_def)
      with 3 r t res(1) Some p(1) \<open>tcs \<noteq> []\<close> show ?thesis by (simp add: Let_def)
    qed
  next
    case 4
    with cs have "tcs \<noteq> []" by auto
    obtain res where res: "and_loop_obj k h (obj_children (h ! r)) m [r] = Some res"
      "represents (Suc k) h res (and_loop tcs m [t])"
      using and_loop_obj_rel [OF IH cs self] by auto
    with 4 r t \<open>tcs \<noteq> []\<close> show ?thesis by (simp add: Let_def)
  qed
qed

theorem find_path_obj_refines_witness:
  "abs_node 3 ex_or_heap 0 = Some example_or_root \<and>
   (\<exists>ps. find_path_obj 3 ex_or_heap 0 ''difficulty'' = Some ps \<and>
         represents 3 ex_or_heap ps (find_path example_or_root ''difficulty''))"
proof -
  have h: "abs_node 3 ex_or_heap 0 = Some example_or_root" by code_simp
  show ?thesis using h find_path_obj_refines [OF h] by simp
qed

text \<open>C20. A cycle makes the search fail: if every object of a set \<open>S\<close> is a non-leaf with a
  child in \<open>S\<close>, \<open>_find_path\<close> from any object of \<open>S\<close> recurses until the recursion limit,
  whatever the limit and the metric: the call ends in \<open>RecursionError\<close>.\<close>

theorem find_path_obj_cycle:
  assumes "\<forall>q\<in>S. q < length h \<and> obj_type (h ! q) \<noteq> LEAF \<and> (\<exists>c\<in>set (obj_children (h ! q)). c \<in> S)"
    and "r \<in> S"
  shows "find_path_obj k h r m = None"
  using assms(2)
proof (induction k arbitrary: r)
  case 0
  then show ?case by simp
next
  case (Suc k)
  with assms(1) obtain c where r: "r < length h" "obj_type (h ! r) \<noteq> LEAF"
    and c: "c \<in> set (obj_children (h ! r))" "c \<in> S" by blast
  from c(2) have "find_path_obj k h c m = None" by (rule Suc.IH)
  with r c(1) show ?case
    by (cases "obj_type (h ! r)") (auto simp: Let_def or_loop_obj_None and_loop_obj_None)
qed

theorem find_path_obj_cycle_witness:
  "find_path_obj 1000 cyc_heap 0 ''difficulty'' = None"
proof -
  have "\<forall>q\<in>{0}. q < length cyc_heap \<and> obj_type (cyc_heap ! q) \<noteq> LEAF \<and>
          (\<exists>c\<in>set (obj_children (cyc_heap ! q)). c \<in> {0::nat})"
    by code_simp
  then show ?thesis using find_path_obj_cycle [of "{0}" cyc_heap 0 1000 "''difficulty''"] by simp
qed

end
