(* ===== verification/Spec2Isabelle.thy ===== *)
theory Spec2Isabelle
  imports Console Json_Schema Path_Bounds Heap_Builders
begin

text \<open>
  \<^bold>\<open>Attack trees of the Skymap security analysis.\<close>
  A verification development of \<open>src/docs/security/attack-trees-analysis.py\<close>, the one
  source file of the repository. The script models attacker goals as AND/OR attack trees,
  searches each tree for its easiest, cheapest and stealthiest path, enumerates its leaf
  attacks, serialises the trees to a JSON report, draws them as Mermaid flowcharts, writes a
  markdown document around the diagrams and prints a console summary.

  \<^bold>\<open>Parts and how they interact.\<close> The builders construct four trees from nodes; the
  report generator hands each tree to the serialiser, to the exporter and to the leaf
  enumeration, writes the JSON report and the markdown document, and prints the counts; the
  main block then prints the leaves of each tree's easiest path. All of it is sequential.
  The nodes are mutable Python objects linked by references; the development works on
  immutable tree values and justifies this with an object-heap model of the builders and
  of the search (\<open>Object_Heap\<close>, \<open>Heap_Builders\<close>).

  \<^bold>\<open>Theories.\<close>
  \<^item> \<open>AT_Prelude\<close>: the named collections \<open>tree_defs\<close> and \<open>score_simps\<close>, Python's
    \<open>str(n)\<close> as \<open>nat_str\<close> with its parser \<open>str_nat\<close> and round trip, \<open>str.join\<close> as
    \<open>py_join\<close>, \<open>str.split('\n')\<close> as \<open>py_split_nl\<close> with the laws that split a joined
    document into its lines, \<open>str.startswith\<close>, and shared list, map and option lemmas.
  \<^item> \<open>Attack_Node\<close> (source lines 18--80): the enums \<open>NodeType\<close>, \<open>Difficulty\<close>,
    \<open>Cost\<close>, \<open>DetectionRisk\<close> as datatypes with \<open>.value\<close>/\<open>.name\<close> functions,
    \<open>AttackAttributes\<close> as a record with its defaults, \<open>AttackNode\<close> as a datatype
    with one selector per field, \<open>add_child\<close> as a function returning the extended node,
    \<open>AttackTree\<close> as a record; the pre-order traversal and the shape invariants.
  \<^item> \<open>Path_Search\<close> (lines 82--132): \<open>_find_path\<close> as \<open>find_path\<close> with one helper per
    loop (\<open>or_loop\<close> keeps \<open>best_score\<close> as an \<open>enat\<close> starting at \<open>\<infinity>\<close>,
    \<open>and_loop\<close> extends the path), \<open>_path_score\<close> with its string dispatch and its
    fall-through to 0, and the three public entry points. The specification is the
    inductive relation \<open>attack_path\<close> and the least score \<open>min_score\<close>;
    \<open>Path_Bounds\<close> places the returned path in the traversal.
  \<^item> \<open>Leaf_Enum\<close> (lines 134--148): \<open>_collect_leaves\<close> with its in-place list as an
    explicit accumulator, proved equal to filtering the pre-order traversal.
  \<^item> \<open>Serialization\<close> (lines 150--177): \<open>to_dict\<close>/\<open>_node_to_dict\<close> into a JSON
    datatype (objects as association lists in insertion order), against a reader by key
    and a walker of the nested ids. \<open>Json_Schema\<close> types the output: an inductive,
    executable schema of a serialised node.
  \<^item> \<open>Mermaid_Export\<close> (lines 179--244): the exporter state (\<open>tree\<close>, \<open>_lines\<close>,
    \<open>_node_count\<close>, \<open>_node_ids\<close>) as a record threaded through \<open>_export_node\<close>; the
    specification \<open>render\<close> lists the kind-tagged lines of a tree under an identifier map.
  \<^item> \<open>Attack_Tree_Data\<close> (lines 247--796): the four builders, statement by statement.
  \<^item> \<open>Object_Heap\<close> (lines 57--122): the objects of the interpreter as a heap (a list of
    \<open>node_obj\<close> records, references as indices), the dataclass constructor as
    \<open>alloc_obj\<close>, \<open>add_child\<close> as the in-place \<open>obj_add_child\<close>, a builder body as a list
    of statements run by \<open>exec_stmt\<close>/\<open>run_builder\<close>, and \<open>_find_path\<close> on the heap as
    \<open>find_path_obj\<close>, with the recursion depth as fuel. \<open>Heap_Builders\<close> (lines
    247--806): the four builder bodies as statement lists, in the order
    \<open>generate_all_reports\<close> runs them.
  \<^item> \<open>Report\<close> (lines 799--823): the JSON report value, the Mermaid sections, the counts
    and the easiest-path leaves. \<open>Report_Text\<close> (lines 826--1016): the markdown document,
    its fixed text line by line around the substituted diagrams, read back line by line.
  \<^item> \<open>Console\<close> (lines 797--1050): the prints of \<open>generate_all_reports\<close> and \<open>__main__\<close>,
    Python's \<open>str(float)\<close> for \<open>time_hours\<close>, and a run as a sequence of effects (two file
    writes, then the prints), cut short by the \<open>OSError\<close> of a file that cannot be opened.

  \<^bold>\<open>What the lemmas show.\<close> The search returns an attack path (C2) of least score for its
  metric (C1), refines \<open>min_score\<close> (C3), obeys the OR, AND, LEAF and dead-end laws of
  the specification (C4--C6, C8), takes the first child of least score (C7) and the first
  child for an unknown metric (C9). Leaf enumeration is the LEAF filter of the pre-order
  traversal, counted, filtered for mitigations and free of repeats (C10--C13).
  Serialisation round-trips every field it writes and re-walks to the pre-order ids (C14,
  C15); two nodes give the same JSON exactly when they agree on the written fields, so
  exactly \<open>cve_refs\<close> and the \<open>requires_*\<close> flags are lost (C16); the output is exactly
  the JSON of the node schema (C17). \<open>add_child\<close> keeps the shape invariants unless the
  parent is a LEAF (C18). On the object heap, \<open>_find_path\<close> returns and computes the
  value-level search of the tree the heap denotes (C19), a cycle of non-leaf objects ends
  in \<open>RecursionError\<close> for every recursion limit (C20), and the program's builders, run
  one after another on one heap, keep the earlier trees and build the same tree whatever
  the heap (C21). The exporter's text is \<open>render\<close> under its final identifier map (C22),
  keeps its memo invariant (C23), hands out one identifier per distinct id (C24), emits
  one shape per node, one edge per non-root node and one style per leaf (C25), is stable
  under re-export (C26), draws the OR shape with one more "(" than ")" (C27), styles
  leaves by mitigation and difficulty (C28), and picks each edge's connector by the type
  of the child it enters (C29). The returned path is a subsequence of the traversal,
  bounding its length and score (C30). The markdown narrative is fixed text whatever the
  trees (C31). A run writes, then prints, and stops at the first failing \<open>open\<close> (C32).
  The lemma \<open>easiest_paths_of_built_trees\<close> computes the easiest paths of the four
  program trees: for Complete System Compromise it is not the path the narrative names.

  \<^bold>\<open>Bounds and fuel.\<close> Every loop of the source walks a list or a finite tree value,
  so the value-level functions are structural \<^theory_text>\<open>fun\<close>/\<^theory_text>\<open>primrec\<close>
  definitions, except the JSON reader and walker (termination by the size of the JSON
  value) and the search for the number of decimal places (bounded by 15). On the object
  heap a reference graph may be cyclic, so \<open>abs_node\<close> and \<open>find_path_obj\<close> take fuel:
  one unit per nested call, which is Python's recursion depth (limit 1000 by default);
  running out is \<open>RecursionError\<close>. C19 shows that fuel \<open>k\<close> is enough whenever the
  objects unfold to a tree within \<open>k\<close> levels, and C20 that no fuel is enough on a cycle.
  Results on the four program trees are computed in the kernel with \<open>code_simp\<close>; the
  claims about the whole markdown document are proved from its line structure rather than
  by evaluating it.

  \<^bold>\<open>Not modelled.\<close> The JSON text \<open>json.dump\<close> produces (library code; the value it
  formats is modelled and the write effect carries it); the encoding of the written files
  (the model writes the markdown as UTF-8 bytes); \<open>str(float)\<close> in exponent notation
  (values below \<open>1e-4\<close> or from \<open>1e16\<close>, which the program never prints). Python floats
  are reals: \<open>time_hours\<close> is only stored, serialised and printed, never computed with.
\<close>

text \<open>The evidence of the finding on the narrative: on the real data the easiest path of "Complete System Compromise" is the root,
  "Path Traversal Attack" (S3) and "Path Traversal via open_path" (A5), of difficulty score
  1; the report's narrative names "Exploit No Authentication \<open>\<rightarrow>\<close> Invoke Sensitive
  Commands" (the AND node S2), whose best path scores 2. For the other three trees the
  computed easiest paths are those the narrative names; \<open>__main__\<close> prints these leaves.\<close>

lemma easiest_paths_of_built_trees:
  "map node_id (find_easiest_path build_complete_system_compromise_tree) = [''G1'', ''S3'', ''A5''] \<and>
   path_score (find_easiest_path build_complete_system_compromise_tree) ''difficulty'' = 1 \<and>
   node_id (children (root build_complete_system_compromise_tree) ! 1) = ''S2'' \<and>
   path_score (find_path (children (root build_complete_system_compromise_tree) ! 1) ''difficulty'') ''difficulty'' = 2 \<and>
   map (map node_id \<circ> easiest_path_leaves) all_trees =
     [[''A5''], [''A7'', ''A8''], [''A13''], [''A16'', ''A17'', ''A18'']]"
  by code_simp

end
